theory Spec2Isabelle
  imports Complex_Main
begin

section \<open>JavaScript values and the platform functions the memory subsystem calls\<close>

text \<open>
  The TypeScript sources type the task payload as \<open>unknown\<close> and validate candidates whose
  shape is not known, so values of unknown type are modelled by a datatype of JavaScript
  values. Numbers are the integral finite doubles (\<open>JNum\<close>) and \<open>NaN\<close>; clock readings
  (\<open>Date.now()\<close>, \<open>performance.now()\<close>) are integers in an arbitrary unit. Strings are lists of
  8-bit code units. An object is the list of its own enumerable properties in creation order.
\<close>

datatype jsval =
    JUndefined
  | JNull
  | JBool bool
  | JNum int
  | JNaN
  | JBigInt int
  | JStr string
  | JArr "jsval list"
  | JObj "(string \<times> jsval) list"

datatype js_error =
    TypeError string
  | SyntaxError
  | QuotaExceededError
  | Error string

text \<open>The \<open>typeof\<close> operator.\<close>

fun typeof :: "jsval \<Rightarrow> string" where
  "typeof JUndefined = ''undefined''"
| "typeof JNull = ''object''"
| "typeof (JBool b) = ''boolean''"
| "typeof (JNum n) = ''number''"
| "typeof JNaN = ''number''"
| "typeof (JBigInt n) = ''bigint''"
| "typeof (JStr s) = ''string''"
| "typeof (JArr xs) = ''object''"
| "typeof (JObj ps) = ''object''"

text \<open>Truthiness (\<open>ToBoolean\<close>), as used by \<open>!x\<close> and \<open>x || y\<close>.\<close>

fun truthy :: "jsval \<Rightarrow> bool" where
  "truthy JUndefined = False"
| "truthy JNull = False"
| "truthy (JBool b) = b"
| "truthy (JNum n) = (n \<noteq> 0)"
| "truthy JNaN = False"
| "truthy (JBigInt n) = (n \<noteq> 0)"
| "truthy (JStr s) = (s \<noteq> [])"
| "truthy (JArr xs) = True"
| "truthy (JObj ps) = True"

text \<open>
  Reading a named property \<open>v.k\<close> for the names the sources read (none of them is an array
  index or \<open>length\<close>): it throws on \<open>undefined\<close> and \<open>null\<close>, gives \<open>undefined\<close> on the other
  primitives and on arrays, and looks the name up in an object.
\<close>

fun get_prop :: "jsval \<Rightarrow> string \<Rightarrow> js_error + jsval" where
  "get_prop JUndefined k = Inl (TypeError ''Cannot read properties of undefined'')"
| "get_prop JNull k = Inl (TypeError ''Cannot read properties of null'')"
| "get_prop (JObj ps) k = Inr (case map_of ps k of None \<Rightarrow> JUndefined | Some v \<Rightarrow> v)"
| "get_prop v k = Inr JUndefined"

subsection \<open>Strings\<close>

text \<open>\<open>String.prototype.toLowerCase\<close> on code units below 256 (ASCII and Latin-1 capitals).\<close>

definition lower_char :: "char \<Rightarrow> char" where
  "lower_char c =
     (let n = (of_char c :: nat)
      in if (65 \<le> n \<and> n \<le> 90) \<or> (192 \<le> n \<and> n \<le> 222 \<and> n \<noteq> 215)
         then char_of (n + 32) else c)"

definition toLowerCase :: "string \<Rightarrow> string" where
  "toLowerCase s = map lower_char s"

fun starts_with :: "string \<Rightarrow> string \<Rightarrow> bool" where
  "starts_with s [] = True"
| "starts_with [] (q # qs) = False"
| "starts_with (c # cs) (q # qs) = (c = q \<and> starts_with cs qs)"

text \<open>\<open>String.prototype.includes\<close>: the argument occurs as a contiguous substring.\<close>

fun str_includes :: "string \<Rightarrow> string \<Rightarrow> bool" where
  "str_includes [] q = (q = [])"
| "str_includes (c # cs) q = (starts_with (c # cs) q \<or> str_includes cs q)"

text \<open>Decimal digits of a natural number and of an integer (\<open>Number::toString\<close> on the
  integral numbers of the model).\<close>

fun show_nat :: "nat \<Rightarrow> string" where
  "show_nat n =
     (if n < 10 then [''0123456789'' ! n]
      else show_nat (n div 10) @ [''0123456789'' ! (n mod 10)])"

declare show_nat.simps [simp del]

definition show_int :: "int \<Rightarrow> string" where
  "show_int i = (if i < 0 then CHR ''-'' # show_nat (nat (- i)) else show_nat (nat i))"

subsection \<open>\<open>JSON.stringify\<close>\<close>

definition hex_digit :: "nat \<Rightarrow> char" where
  "hex_digit n = ''0123456789abcdef'' ! n"

text \<open>\<open>QuoteJSONString\<close>: the escapes of one code unit.\<close>

definition quote_char :: "char \<Rightarrow> string" where
  "quote_char c =
     (let n = (of_char c :: nat)
      in if c = CHR 0x22 then [CHR 0x5C, CHR 0x22]
         else if c = CHR 0x5C then [CHR 0x5C, CHR 0x5C]
         else if n = 8 then [CHR 0x5C, CHR ''b'']
         else if n = 12 then [CHR 0x5C, CHR ''f'']
         else if n = 10 then [CHR 0x5C, CHR ''n'']
         else if n = 13 then [CHR 0x5C, CHR ''r'']
         else if n = 9 then [CHR 0x5C, CHR ''t'']
         else if n < 32 then [CHR 0x5C, CHR ''u'', CHR ''0'', CHR ''0'',
                              hex_digit (n div 16), hex_digit (n mod 16)]
         else [c])"

definition quote :: "string \<Rightarrow> string" where
  "quote s = CHR 0x22 # concat (map quote_char s) @ [CHR 0x22]"

fun join :: "string \<Rightarrow> string list \<Rightarrow> string" where
  "join sep [] = []"
| "join sep [x] = x"
| "join sep (x # y # ys) = x @ sep @ join sep (y # ys)"

text \<open>
  \<open>SerializeJSONProperty\<close>. The result \<open>Inr None\<close> is the value \<open>undefined\<close> (nothing is
  printed); a BigInt throws. In an array an unprintable element is printed as \<open>null\<close>, in an
  object a property with an unprintable value is left out; \<open>NaN\<close> is printed as \<open>null\<close>.
\<close>

fun serialize :: "jsval \<Rightarrow> js_error + string option"
  and serialize_elems :: "jsval list \<Rightarrow> js_error + string list"
  and serialize_props :: "(string \<times> jsval) list \<Rightarrow> js_error + string list" where
  "serialize JUndefined = Inr None"
| "serialize JNull = Inr (Some ''null'')"
| "serialize (JBool b) = Inr (Some (if b then ''true'' else ''false''))"
| "serialize (JNum n) = Inr (Some (show_int n))"
| "serialize JNaN = Inr (Some ''null'')"
| "serialize (JBigInt n) = Inl (TypeError ''Do not know how to serialize a BigInt'')"
| "serialize (JStr s) = Inr (Some (quote s))"
| "serialize (JArr xs) =
     (case serialize_elems xs of
        Inl e \<Rightarrow> Inl e
      | Inr parts \<Rightarrow> Inr (Some (''['' @ join '','' parts @ '']'')))"
| "serialize (JObj ps) =
     (case serialize_props ps of
        Inl e \<Rightarrow> Inl e
      | Inr parts \<Rightarrow> Inr (Some (''{'' @ join '','' parts @ ''}'')))"
| "serialize_elems [] = Inr []"
| "serialize_elems (x # xs) =
     (case serialize x of
        Inl e \<Rightarrow> Inl e
      | Inr r \<Rightarrow>
          (case serialize_elems xs of
             Inl e \<Rightarrow> Inl e
           | Inr rest \<Rightarrow> Inr ((case r of None \<Rightarrow> ''null'' | Some t \<Rightarrow> t) # rest)))"
| "serialize_props [] = Inr []"
| "serialize_props (p # ps) =
     (case serialize (snd p) of
        Inl e \<Rightarrow> Inl e
      | Inr r \<Rightarrow>
          (case serialize_props ps of
             Inl e \<Rightarrow> Inl e
           | Inr rest \<Rightarrow>
               Inr (case r of None \<Rightarrow> rest | Some t \<Rightarrow> (quote (fst p) @ '':'' @ t) # rest)))"

definition JSON_stringify :: "jsval \<Rightarrow> js_error + string option" where
  "JSON_stringify v = serialize v"

section \<open>Entry model (types/memory.ts)\<close>

record Metadata =
  success :: bool
  duration :: int
  errors :: "string list option"
  tags :: "string list option"
  priority :: "int option"

record MemoryEntry =
  entry_id :: string
  timestamp :: int
  task :: string
  result :: jsval
  metadata :: Metadata

section \<open>Search engine (services/MemorySearchEngine.ts)\<close>

record Timeframe =
  tf_start :: "int option"
  tf_end :: "int option"

datatype SortOrder = Asc | Desc

record SearchOptions =
  query :: "string option"
  timeframe :: "Timeframe option"
  successOnly :: "bool option"
  opt_tags :: "string list option"
  minDuration :: "int option"
  maxDuration :: "int option"
  limit :: "int option"
  sortBy :: "string option"
  sortOrder :: "SortOrder option"

record SearchResult =
  entries :: "MemoryEntry list"
  totalCount :: nat
  searchTime :: int
  filters :: SearchOptions
  suggestions :: "string list option"

text \<open>\<open>searchInResult\<close>: a string payload is searched directly, an object or array through its
  JSON text (which throws on a BigInt), anything else does not match.\<close>

definition searchInResult :: "jsval \<Rightarrow> string \<Rightarrow> js_error + bool" where
  "searchInResult res q =
     (if typeof res = ''string''
      then (case res of JStr s \<Rightarrow> Inr (str_includes (toLowerCase s) q) | _ \<Rightarrow> Inr False)
      else if typeof res = ''object'' \<and> res \<noteq> JNull
      then (case JSON_stringify res of
              Inl e \<Rightarrow> Inl e
            | Inr None \<Rightarrow> Inl (TypeError ''Cannot read properties of undefined'')
            | Inr (Some resultStr) \<Rightarrow> Inr (str_includes (toLowerCase resultStr) q))
      else Inr False)"

definition matchesTextQuery :: "MemoryEntry \<Rightarrow> string \<Rightarrow> js_error + bool" where
  "matchesTextQuery entry q =
     (let queryLower = toLowerCase q
      in if str_includes (toLowerCase (task entry)) queryLower then Inr True
         else (case searchInResult (result entry) queryLower of
                 Inl e \<Rightarrow> Inl e
               | Inr True \<Rightarrow> Inr True
               | Inr False \<Rightarrow>
                   (case tags (metadata entry) of
                      None \<Rightarrow> Inr False
                    | Some ts \<Rightarrow> Inr (list_ex (\<lambda>tag. str_includes (toLowerCase tag) queryLower) ts))))"

text \<open>\<open>!start\<close> holds for an absent bound and for the bound \<open>0\<close>.\<close>

definition matchTimeframe :: "MemoryEntry \<Rightarrow> Timeframe option \<Rightarrow> bool" where
  "matchTimeframe entry tf =
     (case tf of
        None \<Rightarrow> True
      | Some t \<Rightarrow>
          (case tf_start t of None \<Rightarrow> True | Some s \<Rightarrow> s = 0 \<or> timestamp entry \<ge> s) \<and>
          (case tf_end t of None \<Rightarrow> True | Some e \<Rightarrow> e = 0 \<or> timestamp entry \<le> e))"

definition matchTags :: "MemoryEntry \<Rightarrow> string list \<Rightarrow> bool" where
  "matchTags entry requiredTags =
     (case tags (metadata entry) of
        None \<Rightarrow> False
      | Some ts \<Rightarrow> list_all (\<lambda>tag. tag \<in> set ts) requiredTags)"

definition matchDuration :: "MemoryEntry \<Rightarrow> int option \<Rightarrow> int option \<Rightarrow> bool" where
  "matchDuration entry minD maxD =
     (let d = duration (metadata entry)
      in if (case minD of None \<Rightarrow> False | Some m \<Rightarrow> m \<noteq> 0 \<and> d < m) then False
         else if (case maxD of None \<Rightarrow> False | Some m \<Rightarrow> m \<noteq> 0 \<and> d > m) then False
         else True)"

text \<open>The callback of \<open>memoryEntries.filter\<close> in \<open>search\<close>: all five matches are computed, then
  combined.\<close>

definition search_filter :: "SearchOptions \<Rightarrow> MemoryEntry \<Rightarrow> js_error + bool" where
  "search_filter options entry =
     (case (case query options of
              None \<Rightarrow> Inr True
            | Some q \<Rightarrow> if q = [] then Inr True else matchesTextQuery entry q) of
        Inl e \<Rightarrow> Inl e
      | Inr textMatch \<Rightarrow>
          (let timeframeMatch = matchTimeframe entry (timeframe options);
               successMatch = (case successOnly options of
                                 None \<Rightarrow> True
                               | Some b \<Rightarrow> success (metadata entry) = b);
               tagMatch = (case opt_tags options of
                             None \<Rightarrow> True
                           | Some ts \<Rightarrow> length ts = 0 \<or> matchTags entry ts);
               durationMatch = matchDuration entry (minDuration options) (maxDuration options)
           in Inr (textMatch \<and> timeframeMatch \<and> successMatch \<and> tagMatch \<and> durationMatch)))"

text \<open>\<open>Array.prototype.filter\<close> with a callback that may throw: the first exception ends it.\<close>

fun filter_js :: "('a \<Rightarrow> js_error + bool) \<Rightarrow> 'a list \<Rightarrow> js_error + 'a list" where
  "filter_js p [] = Inr []"
| "filter_js p (x # xs) =
     (case p x of
        Inl e \<Rightarrow> Inl e
      | Inr b \<Rightarrow>
          (case filter_js p xs of
             Inl e \<Rightarrow> Inl e
           | Inr ys \<Rightarrow> Inr (if b then x # ys else ys)))"

text \<open>
  \<open>Array.prototype.sort\<close> with a comparison function, as a stable insertion sort: an element
  stays in front of a later one unless the function, called on the two in that order, is
  positive. For a consistent comparison function this is the order ECMAScript prescribes; for
  an inconsistent one ECMAScript leaves the order to the implementation.
\<close>

fun insert_js :: "('a \<Rightarrow> 'a \<Rightarrow> 'n::{linorder,zero}) \<Rightarrow> 'a \<Rightarrow> 'a list \<Rightarrow> 'a list" where
  "insert_js cmp x [] = [x]"
| "insert_js cmp x (y # ys) = (if cmp x y \<le> 0 then x # y # ys else y # insert_js cmp x ys)"

fun sort_js :: "('a \<Rightarrow> 'a \<Rightarrow> 'n::{linorder,zero}) \<Rightarrow> 'a list \<Rightarrow> 'a list" where
  "sort_js cmp [] = []"
| "sort_js cmp (x # xs) = insert_js cmp x (sort_js cmp xs)"

text \<open>The comparison function of \<open>sortResults\<close>; \<open>None\<close> is the \<open>default\<close> branch of the switch,
  which returns \<open>0\<close> before the order is applied.\<close>

definition sort_comparison :: "string \<Rightarrow> MemoryEntry \<Rightarrow> MemoryEntry \<Rightarrow> int option" where
  "sort_comparison by a b =
     (if by = ''timestamp'' then Some (timestamp a - timestamp b)
      else if by = ''duration'' then Some (duration (metadata a) - duration (metadata b))
      else if by = ''relevance'' then Some (if success (metadata b) then 1 else - 1)
      else None)"

definition sort_compare :: "string \<Rightarrow> SortOrder \<Rightarrow> MemoryEntry \<Rightarrow> MemoryEntry \<Rightarrow> int" where
  "sort_compare by ord a b =
     (case sort_comparison by a b of
        None \<Rightarrow> 0
      | Some comparison \<Rightarrow> if ord = Asc then comparison else - comparison)"

definition sortResults ::
  "MemoryEntry list \<Rightarrow> string option \<Rightarrow> SortOrder option \<Rightarrow> MemoryEntry list" where
  "sortResults results by ord =
     (case by of
        None \<Rightarrow> results
      | Some b \<Rightarrow>
          if b = [] then results
          else sort_js (sort_compare b (case ord of None \<Rightarrow> Desc | Some d \<Rightarrow> d)) results)"

text \<open>Insertion into a JavaScript \<open>Set\<close> keeps the first occurrence of each element.\<close>

definition set_order :: "'a list \<Rightarrow> 'a list" where
  "set_order xs = rev (remdups (rev xs))"

definition getSuggestions :: "MemoryEntry list \<Rightarrow> string \<Rightarrow> string list" where
  "getSuggestions memoryEntries q =
     (if q = [] \<or> length q < 2 then []
      else
        let queryLower = toLowerCase q;
            tasks = map task
                      (filter (\<lambda>e. str_includes (toLowerCase (task e)) queryLower) memoryEntries);
            tgs = concat (map (\<lambda>e. case tags (metadata e) of
                                      None \<Rightarrow> []
                                    | Some ts \<Rightarrow>
                                        filter (\<lambda>tag. str_includes (toLowerCase tag) queryLower) ts)
                              memoryEntries)
        in take 10 (set_order (tasks @ tgs)))"

definition generateSuggestions :: "MemoryEntry list \<Rightarrow> string option \<Rightarrow> string list" where
  "generateSuggestions memoryEntries q =
     (case q of
        None \<Rightarrow> []
      | Some s \<Rightarrow> if s = [] then [] else getSuggestions memoryEntries s)"

text \<open>The body of the \<open>try\<close> block of \<open>search\<close>: filter, sort, limit, suggestions.\<close>

definition search_try ::
  "MemoryEntry list \<Rightarrow> SearchOptions \<Rightarrow> js_error + (MemoryEntry list \<times> string list)" where
  "search_try memoryEntries options =
     (case filter_js (search_filter options) memoryEntries of
        Inl e \<Rightarrow> Inl e
      | Inr results0 \<Rightarrow>
          (let results1 = sortResults results0 (sortBy options) (sortOrder options);
               results2 = (case limit options of
                             None \<Rightarrow> results1
                           | Some l \<Rightarrow> if l \<noteq> 0 \<and> l > 0 then take (nat l) results1 else results1)
           in Inr (results2, generateSuggestions memoryEntries (query options))))"

text \<open>
  \<open>search\<close>, with the two readings of \<open>performance.now()\<close> as arguments: \<open>startTime\<close> is read
  before the \<open>try\<close>, \<open>endTime\<close> where the result is built (at the end of the \<open>try\<close> block or in
  the \<open>catch\<close> block).
\<close>

definition search :: "MemoryEntry list \<Rightarrow> SearchOptions \<Rightarrow> int \<Rightarrow> int \<Rightarrow> SearchResult" where
  "search memoryEntries options startTime endTime =
     (case search_try memoryEntries options of
        Inr (results, sugg) \<Rightarrow>
          \<lparr>entries = results, totalCount = length results, searchTime = endTime - startTime,
           filters = options, suggestions = Some sugg\<rparr>
      | Inl e \<Rightarrow>
          \<lparr>entries = [], totalCount = 0, searchTime = endTime - startTime,
           filters = options, suggestions = None\<rparr>)"

subsection \<open>Double-precision numbers\<close>

text \<open>
  The numbers of \<open>findSimilarTasks\<close> are IEEE 754 doubles. A finite double is the rational
  number it denotes, and an operation returns the exact result rounded to the nearest number
  with a significand of 53 bits, ties to the even significand. Overflow and subnormal
  results are left out: the numbers rounded below are quotients of two string lengths, which
  are integers below \<open>2^53\<close>, and differences of two numbers between 0 and 1.
\<close>

text \<open>The number of binary digits of a positive integer.\<close>

function bit_length :: "int \<Rightarrow> int" where
  "bit_length a = (if a \<le> 0 then 0 else 1 + bit_length (a div 2))"
  by pat_completeness auto
termination
  by (relation "measure nat") auto

declare bit_length.simps [simp del]

text \<open>The binary exponent of a positive rational \<open>x\<close>: the \<open>e\<close> with \<open>2^e \<le> x < 2^(e+1)\<close>. The
  difference of the bit lengths of numerator and denominator is \<open>e\<close> or \<open>e + 1\<close>.\<close>

definition exponent_of :: "rat \<Rightarrow> int" where
  "exponent_of x =
     (let (a, b) = quotient_of x;
          e = bit_length a - bit_length b
      in if 2 powi e \<le> x then e else e - 1)"

text \<open>The nearest integer, a tie going to the even one.\<close>

definition round_half_even :: "rat \<Rightarrow> int" where
  "round_half_even x =
     (let f = \<lfloor>x\<rfloor>; r = x - of_int f
      in if r < 1 / 2 then f
         else if 1 / 2 < r then f + 1
         else if even f then f else f + 1)"

text \<open>Rounding of a positive rational: the nearest multiple of the unit in the last of 53
  places.\<close>

definition round_positive :: "rat \<Rightarrow> rat" where
  "round_positive x =
     (let ulp = 2 powi (exponent_of x - 52)
      in of_int (round_half_even (x / ulp)) * ulp)"

definition round_double :: "rat \<Rightarrow> rat" where
  "round_double x =
     (if x = 0 then 0
      else if x < 0 then - round_positive (- x)
      else round_positive x)"

text \<open>\<open>a / b\<close> for \<open>b\<close> other than zero, and \<open>a - b\<close>.\<close>

definition double_div :: "rat \<Rightarrow> rat \<Rightarrow> rat" where
  "double_div a b = round_double (a / b)"

definition double_sub :: "rat \<Rightarrow> rat \<Rightarrow> rat" where
  "double_sub a b = round_double (a - b)"

text \<open>A number passed by a caller: a finite one, \<open>NaN\<close>, or an infinity.\<close>

datatype number = Finite rat | NotANumber | PosInfinity | NegInfinity

text \<open>\<open>x >= y\<close> for a finite \<open>x\<close>: every comparison with \<open>NaN\<close> is false.\<close>

fun number_ge :: "rat \<Rightarrow> number \<Rightarrow> bool" where
  "number_ge x (Finite y) = (y \<le> x)"
| "number_ge x NotANumber = False"
| "number_ge x PosInfinity = False"
| "number_ge x NegInfinity = True"

text \<open>A parameter with a default value: the default stands in for an argument that is left out
  or \<open>undefined\<close>.\<close>

fun or_default :: "'a \<Rightarrow> 'a option \<Rightarrow> 'a" where
  "or_default d None = d"
| "or_default d (Some v) = v"

subsection \<open>Similar tasks\<close>

record SimilarityResult =
  sr_entry :: MemoryEntry
  similarity :: rat
  matchedTerms :: "string list"

text \<open>The assignment \<open>dp[i][j] = v\<close> on the matrix of \<open>levenshteinDistance\<close>, whose rows are
  separate arrays.\<close>

definition dp_set :: "nat list list \<Rightarrow> nat \<Rightarrow> nat \<Rightarrow> nat \<Rightarrow> nat list list" where
  "dp_set dp i j v = dp[i := (dp ! i)[j := v]]"

text \<open>
  \<open>levenshteinDistance\<close>: the matrix of \<open>m + 1\<close> rows of \<open>n + 1\<close> zeros, the loop that sets
  column 0, the loop that sets row 0, and the two nested loops over \<open>i = 1..m\<close> and
  \<open>j = 1..n\<close>. Every index the loops read or write lies inside the matrix.
\<close>

definition levenshteinDistance :: "string \<Rightarrow> string \<Rightarrow> nat" where
  "levenshteinDistance s1 s2 =
     (let m = length s1; n = length s2;
          dp0 = replicate (m + 1) (replicate (n + 1) 0);
          dp1 = fold (\<lambda>i dp. dp_set dp i 0 i) [0..<m + 1] dp0;
          dp2 = fold (\<lambda>j dp. dp_set dp 0 j j) [0..<n + 1] dp1;
          dp3 = fold (\<lambda>i dp.
                  fold (\<lambda>j dp.
                    let cost = (if s1 ! (i - 1) = s2 ! (j - 1) then 0 else 1)
                    in dp_set dp i j
                         (min (min (dp ! (i - 1) ! j + 1) (dp ! i ! (j - 1) + 1))
                              (dp ! (i - 1) ! (j - 1) + cost)))
                    [1..<n + 1] dp)
                  [1..<m + 1] dp2
      in dp3 ! m ! n)"

text \<open>\<open>calculateSimilarity\<close>: the distance is taken on the lowercased strings, the maximal
  length on the strings as given. The quotient is rounded to a double, and so is its
  difference from one.\<close>

definition calculateSimilarity :: "string \<Rightarrow> string \<Rightarrow> rat" where
  "calculateSimilarity str1 str2 =
     (let editDistance = levenshteinDistance (toLowerCase str1) (toLowerCase str2);
          maxLength = max (length str1) (length str2)
      in if maxLength = 0 then 1
         else double_sub 1 (double_div (of_nat editDistance) (of_nat maxLength)))"

text \<open>White space (\<open>\s\<close>) among the code units below 256.\<close>

definition is_space :: "char \<Rightarrow> bool" where
  "is_space c = ((of_char c :: nat) \<in> {9, 10, 11, 12, 13, 32, 160})"

text \<open>\<open>s.split(/\s+/)\<close>: the pieces between maximal runs of white space; a run at either end
  leaves an empty piece there.\<close>

function split_ws :: "string \<Rightarrow> string list" where
  "split_ws [] = [[]]"
| "split_ws (c # cs) =
     (if is_space c then [] # split_ws (dropWhile is_space cs)
      else (case split_ws cs of [] \<Rightarrow> [[c]] | w # ws \<Rightarrow> (c # w) # ws))"
  by pat_completeness auto
termination
  by (relation "measure length") (auto simp: length_dropWhile_le less_Suc_eq_le)

definition findMatchedTerms :: "string \<Rightarrow> string \<Rightarrow> string list" where
  "findMatchedTerms str1 str2 =
     (let words1 = split_ws (toLowerCase str1);
          words2 = split_ws (toLowerCase str2);
          matched = concat (map (\<lambda>word1.
                      concat (map (\<lambda>word2. if word1 = word2 \<and> length word1 > 2 then [word1] else [])
                                  words2))
                      words1)
      in set_order matched)"

text \<open>The integral part of a number (rounding towards zero).\<close>

definition trunc :: "rat \<Rightarrow> int" where
  "trunc q = (if 0 \<le> q then \<lfloor>q\<rfloor> else \<lceil>q\<rceil>)"

text \<open>\<open>xs.slice(0, end)\<close>: \<open>end\<close> is made an integer or an infinity (\<open>NaN\<close> becomes 0), and a
  negative one counts from the end of the array.\<close>

definition slice0 :: "'a list \<Rightarrow> number \<Rightarrow> 'a list" where
  "slice0 xs e =
     (let len = int (length xs);
          final = (case e of
                     NegInfinity \<Rightarrow> 0
                   | PosInfinity \<Rightarrow> len
                   | NotANumber \<Rightarrow> min 0 len
                   | Finite q \<Rightarrow>
                       (let relativeEnd = trunc q
                        in if relativeEnd < 0 then max (len + relativeEnd) 0
                           else min relativeEnd len))
      in take (nat final) xs)"

text \<open>The loop of \<open>findSimilarTasks\<close> over the working set.\<close>

fun collect_similar :: "MemoryEntry list \<Rightarrow> string \<Rightarrow> number \<Rightarrow> SimilarityResult list" where
  "collect_similar [] t threshold = []"
| "collect_similar (entry # rest) t threshold =
     (let sim = calculateSimilarity (task entry) t
      in if number_ge sim threshold
         then \<lparr>sr_entry = entry, similarity = sim,
               matchedTerms = findMatchedTerms (task entry) t\<rparr> # collect_similar rest t threshold
         else collect_similar rest t threshold)"

text \<open>The default values of the parameters \<open>threshold\<close> (the double nearest to 0.7) and
  \<open>limit\<close>.\<close>

definition DEFAULT_THRESHOLD :: number where
  "DEFAULT_THRESHOLD = Finite (round_double (7 / 10))"

definition DEFAULT_LIMIT :: number where
  "DEFAULT_LIMIT = Finite 10"

text \<open>\<open>findSimilarTasks\<close>; \<open>None\<close> is an argument that is left out. The comparison function of
  the sort is a subtraction of doubles.\<close>

definition findSimilarTasks ::
  "MemoryEntry list \<Rightarrow> string \<Rightarrow> number option \<Rightarrow> number option \<Rightarrow> SimilarityResult list" where
  "findSimilarTasks memoryEntries t threshold_arg limit_arg =
     (let threshold = or_default DEFAULT_THRESHOLD threshold_arg;
          max_results = or_default DEFAULT_LIMIT limit_arg;
          results = collect_similar memoryEntries t threshold;
          sorted = sort_js (\<lambda>a b. double_sub (similarity b) (similarity a)) results
      in slice0 sorted max_results)"

subsection \<open>Levenshtein distance and similarity as the specification words them\<close>

text \<open>
  The classic Levenshtein distance between the first \<open>i\<close> characters of \<open>s1\<close> and the first
  \<open>j\<close> characters of \<open>s2\<close>, by the Wagner-Fischer recurrence; the distance of two strings is
  the distance of their full prefixes.
\<close>

fun lev :: "'a list \<Rightarrow> 'a list \<Rightarrow> nat \<Rightarrow> nat \<Rightarrow> nat" where
  "lev s1 s2 0 j = j"
| "lev s1 s2 (Suc i) 0 = Suc i"
| "lev s1 s2 (Suc i) (Suc j) =
     min (min (lev s1 s2 i (Suc j) + 1) (lev s1 s2 (Suc i) j + 1))
         (lev s1 s2 i j + (if s1 ! i = s2 ! j then 0 else 1))"

definition levenshtein_spec :: "'a list \<Rightarrow> 'a list \<Rightarrow> nat" where
  "levenshtein_spec s1 s2 = lev s1 s2 (length s1) (length s2)"

text \<open>One minus the distance of the lowercased texts divided by the longer of the lengths of
  the two texts, as an exact rational number; for two empty strings (no longer length to
  divide by) it is one.\<close>

definition similarity_exact :: "string \<Rightarrow> string \<Rightarrow> rat" where
  "similarity_exact a b =
     (if a = [] \<and> b = [] then 1
      else 1 - of_nat (levenshtein_spec (toLowerCase a) (toLowerCase b)) /
               of_nat (max (length a) (length b)))"

text \<open>The same in the arithmetic of doubles: the quotient rounded, then the difference
  rounded.\<close>

definition similarity_spec :: "string \<Rightarrow> string \<Rightarrow> rat" where
  "similarity_spec a b =
     (if a = [] \<and> b = [] then 1
      else double_sub 1
             (double_div (of_nat (levenshtein_spec (toLowerCase a) (toLowerCase b)))
                         (of_nat (max (length a) (length b)))))"

subsection \<open>Invariants of the loops of \<open>levenshteinDistance\<close>\<close>

text \<open>The matrix has \<open>m + 1\<close> rows of \<open>n + 1\<close> cells.\<close>

definition dims :: "nat \<Rightarrow> nat \<Rightarrow> nat list list \<Rightarrow> bool" where
  "dims m n dp \<longleftrightarrow> length dp = m + 1 \<and> (\<forall>r \<le> m. length (dp ! r) = n + 1)"

text \<open>Every cell of the matrix that \<open>known\<close> selects holds the distance of its prefixes.\<close>

definition filled ::
  "'a list \<Rightarrow> 'a list \<Rightarrow> nat \<Rightarrow> nat \<Rightarrow> (nat \<Rightarrow> nat \<Rightarrow> bool) \<Rightarrow> nat list list \<Rightarrow> bool" where
  "filled s1 s2 m n known dp \<longleftrightarrow>
     dims m n dp \<and> (\<forall>r c. r \<le> m \<and> c \<le> n \<and> known r c \<longrightarrow> dp ! r ! c = lev s1 s2 r c)"

text \<open>The body of the inner loop.\<close>

definition cell :: "'a list \<Rightarrow> 'a list \<Rightarrow> nat \<Rightarrow> nat \<Rightarrow> nat list list \<Rightarrow> nat list list" where
  "cell s1 s2 i j dp =
     (let cost = (if s1 ! (i - 1) = s2 ! (j - 1) then 0 else 1)
      in dp_set dp i j
           (min (min (dp ! (i - 1) ! j + 1) (dp ! i ! (j - 1) + 1))
                (dp ! (i - 1) ! (j - 1) + cost)))"

text \<open>The cells written before the inner loop reaches cell \<open>(i, j)\<close>.\<close>

definition before :: "nat \<Rightarrow> nat \<Rightarrow> nat \<Rightarrow> nat \<Rightarrow> bool" where
  "before i j r c \<longleftrightarrow> c = 0 \<or> r = 0 \<or> r < i \<or> (r = i \<and> c < j)"

section \<open>\<open>JSON.parse\<close> and conversions\<close>

text \<open>
  A recursive-descent parser of JSON text. Numbers with a fraction or an exponent, and
  \<open>\u\<close> escapes of code units above 255, are outside the model and are refused. The
  recursion of \<open>parse_value\<close> is bounded by a counter that \<open>JSON_parse\<close> starts at twice the
  length of the text plus two; every recursive call but the first of \<open>parse_elems\<close> follows a
  consumed character.
\<close>

definition is_json_ws :: "char \<Rightarrow> bool" where
  "is_json_ws c = ((of_char c :: nat) \<in> {9, 10, 13, 32})"

definition skip_ws :: "string \<Rightarrow> string" where
  "skip_ws s = dropWhile is_json_ws s"

definition is_digit :: "char \<Rightarrow> bool" where
  "is_digit c = (48 \<le> (of_char c :: nat) \<and> (of_char c :: nat) \<le> 57)"

definition digit_val :: "char \<Rightarrow> nat" where
  "digit_val c = of_char c - 48"

definition hex_val :: "char \<Rightarrow> nat option" where
  "hex_val c =
     (let n = (of_char c :: nat)
      in if 48 \<le> n \<and> n \<le> 57 then Some (n - 48)
         else if 97 \<le> n \<and> n \<le> 102 then Some (n - 87)
         else if 65 \<le> n \<and> n \<le> 70 then Some (n - 55)
         else None)"

definition unescape :: "char \<Rightarrow> char option" where
  "unescape e =
     (if e = CHR 0x22 then Some (CHR 0x22)
      else if e = CHR 0x5C then Some (CHR 0x5C)
      else if e = CHR ''/'' then Some (CHR ''/'')
      else if e = CHR ''b'' then Some (char_of (8::nat))
      else if e = CHR ''f'' then Some (char_of (12::nat))
      else if e = CHR ''n'' then Some (char_of (10::nat))
      else if e = CHR ''r'' then Some (char_of (13::nat))
      else if e = CHR ''t'' then Some (char_of (9::nat))
      else None)"

definition unicode_escape :: "char \<Rightarrow> char \<Rightarrow> char \<Rightarrow> char \<Rightarrow> char option" where
  "unicode_escape h1 h2 h3 h4 =
     (case (hex_val h1, hex_val h2, hex_val h3, hex_val h4) of
        (Some a, Some b, Some c, Some d) \<Rightarrow>
          if a = 0 \<and> b = 0 then Some (char_of (16 * c + d)) else None
      | _ \<Rightarrow> None)"

fun parse_chars :: "string \<Rightarrow> (string \<times> string) option" where
  "parse_chars [] = None"
| "parse_chars (c # cs) =
     (if c = CHR 0x22 then Some ([], cs)
      else if c = CHR 0x5C then
        (case cs of
           [] \<Rightarrow> None
         | e # cs1 \<Rightarrow>
             if e = CHR ''u'' then
               (case cs1 of
                  h1 # h2 # h3 # h4 # cs2 \<Rightarrow>
                    (case unicode_escape h1 h2 h3 h4 of
                       None \<Rightarrow> None
                     | Some ch \<Rightarrow>
                         (case parse_chars cs2 of
                            None \<Rightarrow> None
                          | Some (s, r) \<Rightarrow> Some (ch # s, r)))
                | _ \<Rightarrow> None)
             else
               (case unescape e of
                  None \<Rightarrow> None
                | Some ch \<Rightarrow>
                    (case parse_chars cs1 of
                       None \<Rightarrow> None
                     | Some (s, r) \<Rightarrow> Some (ch # s, r))))
      else if (of_char c :: nat) < 32 then None
      else (case parse_chars cs of
              None \<Rightarrow> None
            | Some (s, r) \<Rightarrow> Some (c # s, r)))"

definition parse_number :: "string \<Rightarrow> (jsval \<times> string) option" where
  "parse_number s =
     (let neg = (case s of [] \<Rightarrow> False | c # _ \<Rightarrow> c = CHR ''-'');
          s1 = (if neg then tl s else s);
          ds = takeWhile is_digit s1;
          r = dropWhile is_digit s1;
          n = foldl (\<lambda>acc d. 10 * acc + digit_val d) 0 ds
      in if ds = [] then None
         else if length ds > 1 \<and> hd ds = CHR ''0'' then None
         else if (case r of [] \<Rightarrow> False | c # _ \<Rightarrow> c = CHR ''.'' \<or> c = CHR ''e'' \<or> c = CHR ''E'') then None
         else Some (JNum (if neg then - int n else int n), r))"

fun obj_set :: "(string \<times> jsval) list \<Rightarrow> string \<Rightarrow> jsval \<Rightarrow> (string \<times> jsval) list" where
  "obj_set [] k v = [(k, v)]"
| "obj_set (p # ps) k v = (if fst p = k then (k, v) # ps else p # obj_set ps k v)"

fun parse_value :: "nat \<Rightarrow> string \<Rightarrow> (jsval \<times> string) option"
  and parse_elems :: "nat \<Rightarrow> string \<Rightarrow> (jsval list \<times> string) option"
  and parse_members :: "nat \<Rightarrow> string \<Rightarrow> ((string \<times> jsval) list \<times> string) option" where
  "parse_value 0 s = None"
| "parse_value (Suc n) s =
     (case skip_ws s of
        [] \<Rightarrow> None
      | c # cs \<Rightarrow>
          if c = CHR ''{'' then
            (case skip_ws cs of
               [] \<Rightarrow> None
             | d # ds \<Rightarrow>
                 if d = CHR ''}'' then Some (JObj [], ds)
                 else (case parse_members n (d # ds) of
                         None \<Rightarrow> None
                       | Some (ps, r) \<Rightarrow> Some (JObj (foldl (\<lambda>acc p. obj_set acc (fst p) (snd p)) [] ps), r)))
          else if c = CHR ''['' then
            (case skip_ws cs of
               [] \<Rightarrow> None
             | d # ds \<Rightarrow>
                 if d = CHR '']'' then Some (JArr [], ds)
                 else (case parse_elems n (d # ds) of
                         None \<Rightarrow> None
                       | Some (vs, r) \<Rightarrow> Some (JArr vs, r)))
          else if c = CHR 0x22 then
            (case parse_chars cs of None \<Rightarrow> None | Some (str, r) \<Rightarrow> Some (JStr str, r))
          else if starts_with (c # cs) ''true'' then Some (JBool True, drop 4 (c # cs))
          else if starts_with (c # cs) ''false'' then Some (JBool False, drop 5 (c # cs))
          else if starts_with (c # cs) ''null'' then Some (JNull, drop 4 (c # cs))
          else parse_number (c # cs))"
| "parse_elems 0 s = None"
| "parse_elems (Suc n) s =
     (case parse_value n s of
        None \<Rightarrow> None
      | Some (v, r) \<Rightarrow>
          (case skip_ws r of
             [] \<Rightarrow> None
           | c # cs \<Rightarrow>
               if c = CHR '','' then
                 (case parse_elems n cs of
                    None \<Rightarrow> None
                  | Some (vs, r1) \<Rightarrow> Some (v # vs, r1))
               else if c = CHR '']'' then Some ([v], cs)
               else None))"
| "parse_members 0 s = None"
| "parse_members (Suc n) s =
     (case skip_ws s of
        [] \<Rightarrow> None
      | q # s1 \<Rightarrow>
          if q \<noteq> CHR 0x22 then None
          else
            (case parse_chars s1 of
               None \<Rightarrow> None
             | Some (k, r) \<Rightarrow>
                 (case skip_ws r of
                    [] \<Rightarrow> None
                  | c # cs \<Rightarrow>
                      if c \<noteq> CHR '':'' then None
                      else
                        (case parse_value n cs of
                           None \<Rightarrow> None
                         | Some (v, r1) \<Rightarrow>
                             (case skip_ws r1 of
                                [] \<Rightarrow> None
                              | d # ds \<Rightarrow>
                                  if d = CHR '','' then
                                    (case parse_members n ds of
                                       None \<Rightarrow> None
                                     | Some (ps, r2) \<Rightarrow> Some ((k, v) # ps, r2))
                                  else if d = CHR ''}'' then Some ([(k, v)], ds)
                                  else None)))))"

definition JSON_parse :: "string \<Rightarrow> js_error + jsval" where
  "JSON_parse text =
     (case parse_value (2 * length text + 2) text of
        None \<Rightarrow> Inl SyntaxError
      | Some (v, r) \<Rightarrow> if skip_ws r = [] then Inr v else Inl SyntaxError)"



subsection \<open>Conversions\<close>

text \<open>\<open>ToString\<close>, as applied by template literals.\<close>

fun js_to_string :: "jsval \<Rightarrow> string" where
  "js_to_string JUndefined = ''undefined''"
| "js_to_string JNull = ''null''"
| "js_to_string (JBool b) = (if b then ''true'' else ''false'')"
| "js_to_string (JNum n) = show_int n"
| "js_to_string JNaN = ''NaN''"
| "js_to_string (JBigInt n) = show_int n"
| "js_to_string (JStr s) = s"
| "js_to_string (JArr xs) =
     join '','' (map (\<lambda>x. if x = JUndefined \<or> x = JNull then [] else js_to_string x) xs)"
| "js_to_string (JObj ps) = ''[object Object]''"

text \<open>\<open>StringToNumber\<close> on the numbers of the model: white space is trimmed, the empty string
  is \<open>0\<close>, an optionally signed decimal integer is its value; the other numeric literals
  (fractions, exponents, hexadecimal, \<open>Infinity\<close>) are outside the number model and read, like
  any other text, as \<open>NaN\<close>.\<close>

definition string_to_number :: "string \<Rightarrow> jsval" where
  "string_to_number s =
     (let t = rev (dropWhile is_space (rev (dropWhile is_space s)));
          neg = (case t of [] \<Rightarrow> False | c # _ \<Rightarrow> c = CHR ''-'');
          u = (case t of [] \<Rightarrow> [] | c # r \<Rightarrow> if c = CHR ''-'' \<or> c = CHR ''+'' then r else t);
          n = foldl (\<lambda>acc d. 10 * acc + digit_val d) 0 u
      in if t = [] then JNum 0
         else if u \<noteq> [] \<and> list_all is_digit u then JNum (if neg then - int n else int n)
         else JNaN)"

text \<open>\<open>Number(v)\<close> for a value that is not a BigInt.\<close>

definition to_number :: "jsval \<Rightarrow> jsval" where
  "to_number v =
     (case v of
        JUndefined \<Rightarrow> JNaN
      | JNull \<Rightarrow> JNum 0
      | JBool b \<Rightarrow> JNum (if b then 1 else 0)
      | JNum n \<Rightarrow> JNum n
      | JNaN \<Rightarrow> JNaN
      | JBigInt n \<Rightarrow> JNum n
      | _ \<Rightarrow> string_to_number (js_to_string v))"

text \<open>The value stored by \<open>x++\<close>.\<close>

definition js_increment :: "jsval \<Rightarrow> jsval" where
  "js_increment v =
     (case v of
        JBigInt n \<Rightarrow> JBigInt (n + 1)
      | _ \<Rightarrow> (case to_number v of JNum n \<Rightarrow> JNum (n + 1) | _ \<Rightarrow> JNaN))"

section \<open>The key/value medium (\<open>localStorage\<close>)\<close>

text \<open>
  The medium holds string values under string keys, in insertion order, and has a finite
  capacity: \<open>setItem\<close> throws \<open>QuotaExceededError\<close> when the keys and values would take more
  than \<open>quota\<close> code units.
\<close>

record localStorage =
  items :: "(string \<times> string) list"
  quota :: nat

definition getItem :: "localStorage \<Rightarrow> string \<Rightarrow> string option" where
  "getItem ls k = map_of (items ls) k"

fun put_item :: "(string \<times> string) list \<Rightarrow> string \<Rightarrow> string \<Rightarrow> (string \<times> string) list" where
  "put_item [] k v = [(k, v)]"
| "put_item (p # ps) k v = (if fst p = k then (k, v) # ps else p # put_item ps k v)"

definition used :: "(string \<times> string) list \<Rightarrow> nat" where
  "used its = sum_list (map (\<lambda>p. length (fst p) + length (snd p)) its)"

definition setItem :: "localStorage \<Rightarrow> string \<Rightarrow> string \<Rightarrow> js_error + localStorage" where
  "setItem ls k v =
     (let its = put_item (items ls) k v
      in if used its > quota ls then Inl QuotaExceededError else Inr (ls\<lparr>items := its\<rparr>))"

definition removeItem :: "localStorage \<Rightarrow> string \<Rightarrow> localStorage" where
  "removeItem ls k = ls\<lparr>items := filter (\<lambda>p. fst p \<noteq> k) (items ls)\<rparr>"

section \<open>Persistence layer (services/PersistenceManager.ts)\<close>

definition STORAGE_PREFIX :: string where
  "STORAGE_PREFIX = ''TRINITI_MEMORY_''"

definition METADATA_KEY :: string where
  "METADATA_KEY = ''TRINITI_MEMORY_INDEX''"

text \<open>Reading a property of a value that is known to be neither \<open>undefined\<close> nor \<open>null\<close>.\<close>

definition field :: "jsval \<Rightarrow> string \<Rightarrow> jsval" where
  "field v k = (case get_prop v k of Inl e \<Rightarrow> JUndefined | Inr x \<Rightarrow> x)"

text \<open>\<open>PersistenceManager.validateEntry\<close>. The conjunction is evaluated left to right, so
  \<open>metadata\<close> is read for its fields only once it is known to be a non-null object.\<close>

definition validateEntry :: "jsval \<Rightarrow> bool" where
  "validateEntry entry =
     (if \<not> truthy entry \<or> typeof entry \<noteq> ''object'' then False
      else
        typeof (field entry ''id'') = ''string'' \<and>
        typeof (field entry ''timestamp'') = ''number'' \<and>
        typeof (field entry ''task'') = ''string'' \<and>
        typeof (field entry ''result'') = ''object'' \<and>
        field entry ''result'' \<noteq> JNull \<and>
        typeof (field entry ''metadata'') = ''object'' \<and>
        field entry ''metadata'' \<noteq> JNull \<and>
        typeof (field (field entry ''metadata'') ''success'') = ''boolean'' \<and>
        typeof (field (field entry ''metadata'') ''duration'') = ''number'')"

text \<open>\<open>encryptEntry\<close> and \<open>decryptEntry\<close>, the placeholders: JSON text of the entry, and its
  parse.\<close>

definition encryptEntry :: "jsval \<Rightarrow> js_error + string" where
  "encryptEntry entry =
     (case JSON_stringify entry of
        Inl e \<Rightarrow> Inl e
      | Inr None \<Rightarrow> Inl (TypeError ''encryptEntry: undefined'')
      | Inr (Some t) \<Rightarrow> Inr t)"

definition decryptEntry :: "string \<Rightarrow> js_error + jsval" where
  "decryptEntry encryptedData = JSON_parse encryptedData"

text \<open>\<open>getMemoryIndex\<close>: the parsed index record, or a fresh one when the key is absent, holds
  the empty string or does not parse. \<open>now\<close> is the reading of \<open>Date.now()\<close>.\<close>

definition default_index :: "int \<Rightarrow> jsval" where
  "default_index now =
     JObj [(''entryIds'', JArr []), (''lastUpdated'', JNum now), (''totalEntries'', JNum 0),
           (''storageSize'', JNum 0)]"

definition getMemoryIndex :: "localStorage \<Rightarrow> int \<Rightarrow> jsval" where
  "getMemoryIndex ls now =
     (case getItem ls METADATA_KEY of
        None \<Rightarrow> default_index now
      | Some indexData \<Rightarrow>
          if indexData = [] then default_index now
          else (case JSON_parse indexData of Inl e \<Rightarrow> default_index now | Inr idx \<Rightarrow> idx))"

text \<open>The values that \<open>for (const id of index.entryIds)\<close> runs through: the elements of an
  array, the characters of a string; anything else is not iterable.\<close>

definition iterate :: "jsval \<Rightarrow> js_error + jsval list" where
  "iterate v =
     (case v of
        JArr xs \<Rightarrow> Inr xs
      | JStr s \<Rightarrow> Inr (map (\<lambda>c. JStr [c]) s)
      | _ \<Rightarrow> Inl (TypeError ''is not iterable''))"

text \<open>The size of \<open>new Blob([data])\<close>: the UTF-8 length of the text.\<close>

definition blob_size :: "string \<Rightarrow> nat" where
  "blob_size data = sum_list (map (\<lambda>c. if (of_char c :: nat) < 128 then 1 else 2) data)"

definition calculateStorageSize :: "localStorage \<Rightarrow> int \<Rightarrow> nat" where
  "calculateStorageSize ls now =
     (case get_prop (getMemoryIndex ls now) ''entryIds'' of
        Inl e \<Rightarrow> 0
      | Inr ids \<Rightarrow>
          (case iterate ids of
             Inl e \<Rightarrow> 0
           | Inr xs \<Rightarrow>
               sum_list (map (\<lambda>id. case getItem ls (STORAGE_PREFIX @ js_to_string id) of
                                      None \<Rightarrow> 0
                                    | Some data \<Rightarrow> if data = [] then 0 else blob_size data)
                             xs)))"

text \<open>
  \<open>updateMemoryIndex\<close>. The index is read, the id is appended to \<open>entryIds\<close> unless
  \<open>entryIds.includes\<close> finds it (a string has \<open>includes\<close> but no \<open>push\<close>), the count is
  incremented, the two other fields are refreshed and the record is written back. Any
  exception is logged and thrown again.
\<close>

definition updateMemoryIndex :: "localStorage \<Rightarrow> string \<Rightarrow> int \<Rightarrow> js_error + localStorage" where
  "updateMemoryIndex ls entryId now =
     (let index = getMemoryIndex ls now
      in case get_prop index ''entryIds'' of
           Inl e \<Rightarrow> Inl e
         | Inr ids \<Rightarrow>
             (case (case ids of
                      JArr xs \<Rightarrow>
                        if JStr entryId \<in> set xs then Inr index
                        else (case index of
                                JObj ps \<Rightarrow>
                                  Inr (JObj (obj_set (obj_set ps ''entryIds'' (JArr (xs @ [JStr entryId])))
                                               ''totalEntries'' (js_increment (field index ''totalEntries''))))
                              | _ \<Rightarrow> Inr index)
                    | JStr s \<Rightarrow>
                        if str_includes s entryId then Inr index
                        else Inl (TypeError ''index.entryIds.push is not a function'')
                    | JUndefined \<Rightarrow> Inl (TypeError ''Cannot read properties of undefined'')
                    | JNull \<Rightarrow> Inl (TypeError ''Cannot read properties of null'')
                    | _ \<Rightarrow> Inl (TypeError ''index.entryIds.includes is not a function'')) of
                Inl e \<Rightarrow> Inl e
              | Inr index1 \<Rightarrow>
                  (case index1 of
                     JObj ps \<Rightarrow>
                       (let index2 = JObj (obj_set (obj_set ps ''lastUpdated'' (JNum now))
                                             ''storageSize'' (JNum (int (calculateStorageSize ls now))))
                        in case JSON_stringify index2 of
                             Inl e \<Rightarrow> Inl e
                           | Inr None \<Rightarrow> Inl (TypeError ''undefined'')
                           | Inr (Some t) \<Rightarrow> setItem ls METADATA_KEY t)
                   | _ \<Rightarrow> Inl (TypeError ''Cannot create property on a primitive''))))"

text \<open>
  \<open>saveEntry\<close>: the result is the exception the returned promise is rejected with, if any, and
  the medium as the call leaves it. In the \<open>catch\<close> block \<open>entry.id\<close> is read for the log, which
  itself throws when the entry is \<open>undefined\<close> or \<open>null\<close>.
\<close>

definition saveEntry_try :: "jsval \<Rightarrow> int \<Rightarrow> localStorage \<Rightarrow> js_error option \<times> localStorage" where
  "saveEntry_try entry now ls =
     (if \<not> validateEntry entry then (Some (Error ''Invalid memory entry structure''), ls)
      else
        (case encryptEntry entry of
           Inl e \<Rightarrow> (Some e, ls)
         | Inr encryptedEntry \<Rightarrow>
             (let entryKey = STORAGE_PREFIX @ js_to_string (field entry ''id'')
              in case JSON_stringify (JStr encryptedEntry) of
                   Inl e \<Rightarrow> (Some e, ls)
                 | Inr None \<Rightarrow> (Some (TypeError ''undefined''), ls)
                 | Inr (Some text) \<Rightarrow>
                     (case setItem ls entryKey text of
                        Inl e \<Rightarrow> (Some e, ls)
                      | Inr ls1 \<Rightarrow>
                          (case updateMemoryIndex ls1 (js_to_string (field entry ''id'')) now of
                             Inl e \<Rightarrow> (Some e, ls1)
                           | Inr ls2 \<Rightarrow> (None, ls2))))))"

definition saveEntry :: "jsval \<Rightarrow> int \<Rightarrow> localStorage \<Rightarrow> js_error option \<times> localStorage" where
  "saveEntry entry now ls =
     (case saveEntry_try entry now ls of
        (None, ls1) \<Rightarrow> (None, ls1)
      | (Some error, ls1) \<Rightarrow>
          (case get_prop entry ''id'' of
             Inl e \<Rightarrow> (Some e, ls1)
           | Inr _ \<Rightarrow> (Some error, ls1)))"

text \<open>\<open>retrieveEntry\<close>: \<open>None\<close> is the result \<open>null\<close>. The argument is whatever the index lists;
  the template literal converts it to a string.\<close>

definition retrieveEntry :: "localStorage \<Rightarrow> jsval \<Rightarrow> jsval option" where
  "retrieveEntry ls entryId =
     (case getItem ls (STORAGE_PREFIX @ js_to_string entryId) of
        None \<Rightarrow> None
      | Some encryptedData \<Rightarrow>
          if encryptedData = [] then None
          else (case decryptEntry encryptedData of
                  Inl e \<Rightarrow> None
                | Inr decryptedEntry \<Rightarrow>
                    if validateEntry decryptedEntry then Some decryptedEntry else None))"

definition retrieveEntries :: "localStorage \<Rightarrow> int \<Rightarrow> jsval list" where
  "retrieveEntries ls now =
     (case get_prop (getMemoryIndex ls now) ''entryIds'' of
        Inl e \<Rightarrow> []
      | Inr ids \<Rightarrow>
          (case iterate ids of
             Inl e \<Rightarrow> []
           | Inr xs \<Rightarrow>
               concat (map (\<lambda>id. case retrieveEntry ls id of None \<Rightarrow> [] | Some entry \<Rightarrow> [entry]) xs)))"

subsection \<open>The shape of a valid entry\<close>

definition is_string :: "jsval \<Rightarrow> bool" where
  "is_string v = (case v of JStr s \<Rightarrow> True | _ \<Rightarrow> False)"

definition is_number :: "jsval \<Rightarrow> bool" where
  "is_number v = (case v of JNum n \<Rightarrow> True | JNaN \<Rightarrow> True | _ \<Rightarrow> False)"

definition is_boolean :: "jsval \<Rightarrow> bool" where
  "is_boolean v = (case v of JBool b \<Rightarrow> True | _ \<Rightarrow> False)"

definition is_object :: "jsval \<Rightarrow> bool" where
  "is_object v = (case v of JArr xs \<Rightarrow> True | JObj ps \<Rightarrow> True | _ \<Rightarrow> False)"

text \<open>The structural validator in terms of the shape of the value: the candidate, its
  \<open>result\<close> and its \<open>metadata\<close> are objects (or arrays), \<open>id\<close> and \<open>task\<close> are strings,
  \<open>timestamp\<close> and \<open>metadata.duration\<close> are numbers and \<open>metadata.success\<close> is a boolean.\<close>

definition structure_ok :: "jsval \<Rightarrow> bool" where
  "structure_ok e =
     (is_object e \<and>
      is_string (field e ''id'') \<and>
      is_number (field e ''timestamp'') \<and>
      is_string (field e ''task'') \<and>
      is_object (field e ''result'') \<and>
      is_object (field e ''metadata'') \<and>
      is_boolean (field (field e ''metadata'') ''success'') \<and>
      is_number (field (field e ''metadata'') ''duration''))"

text \<open>The validator as the specification words it: \<open>id\<close> is a non-empty string,
  \<open>timestamp\<close> numeric, \<open>task\<close> a string, \<open>metadata.success\<close> boolean and
  \<open>metadata.duration\<close> numeric.\<close>

definition spec_valid :: "jsval \<Rightarrow> bool" where
  "spec_valid e =
     ((case field e ''id'' of JStr s \<Rightarrow> s \<noteq> [] | _ \<Rightarrow> False) \<and>
      is_number (field e ''timestamp'') \<and>
      is_string (field e ''task'') \<and>
      is_boolean (field (field e ''metadata'') ''success'') \<and>
      is_number (field (field e ''metadata'') ''duration''))"

section \<open>Memory facade, persistent version (services/TRINITIMemorySystem.ts, async)\<close>

text \<open>
  The facade holds the working set (\<open>this.entries\<close>, shared with the search engine by
  \<open>updateEntries\<close>), the initialisation flag and the capability \<open>storageLimit\<close>. The
  entries are kept as the values the persistence layer returns and \<open>recordTask\<close> builds. The
  statistics are recomputed from the working set and are not part of the state.
\<close>

record TRINITIMemorySystem =
  sys_entries :: "jsval list"
  isInitialized :: bool
  storageLimit :: nat

text \<open>The constructor.\<close>

definition new_system :: TRINITIMemorySystem where
  "new_system = \<lparr>sys_entries = [], isInitialized = False, storageLimit = 10000\<rparr>"

text \<open>What one call reads from its environment: the id that \<open>generateUniqueId\<close> returns, the
  reading of \<open>Date.now()\<close>, and the readings of \<open>performance.now()\<close> at the start of the call and
  where the duration is computed.\<close>

record Env =
  new_id :: string
  date_now :: int
  perf_start :: int
  perf_end :: int

text \<open>utils/defensive-programming.ts.\<close>

definition safeguardString :: "jsval \<Rightarrow> string \<Rightarrow> string" where
  "safeguardString str fallback =
     (case str of
        JStr s \<Rightarrow> s
      | JNull \<Rightarrow> fallback
      | JUndefined \<Rightarrow> fallback
      | _ \<Rightarrow> js_to_string str)"

definition safeguardNumber :: "jsval \<Rightarrow> int \<Rightarrow> jsval" where
  "safeguardNumber num fallback =
     (case num of
        JNum n \<Rightarrow> JNum n
      | JNull \<Rightarrow> JNum fallback
      | JUndefined \<Rightarrow> JNum fallback
      | _ \<Rightarrow> (case to_number num of JNum n \<Rightarrow> JNum n | _ \<Rightarrow> JNum fallback))"

definition safeguardBoolean :: "jsval \<Rightarrow> bool \<Rightarrow> bool" where
  "safeguardBoolean b fallback =
     (case b of
        JBool x \<Rightarrow> x
      | JNull \<Rightarrow> fallback
      | JUndefined \<Rightarrow> fallback
      | _ \<Rightarrow> truthy b)"

definition isArray :: "jsval \<Rightarrow> bool" where
  "isArray v = (case v of JArr xs \<Rightarrow> True | _ \<Rightarrow> False)"

text \<open>
  \<open>searchEngine.updateEntries\<close> followed by \<open>updateStats\<close>, as far as they can throw on a
  working set of validated entries: \<open>buildSearchIndex\<close> iterates a truthy \<open>metadata.tags\<close>
  and \<open>getMostCommonTags\<close> calls its \<open>forEach\<close>, so a truthy \<open>tags\<close> that is not an array
  throws.
\<close>

definition refresh_error :: "jsval list \<Rightarrow> js_error option" where
  "refresh_error es =
     (if list_all (\<lambda>e. let tgs = field (field e ''metadata'') ''tags''
                        in \<not> truthy tgs \<or> isArray tgs) es
      then None else Some (TypeError ''tags''))"

text \<open>\<open>initialize\<close>: the working set is loaded first; the flag is set only when the refresh of
  the search engine and of the statistics did not throw.\<close>

definition initialize ::
  "TRINITIMemorySystem \<Rightarrow> localStorage \<Rightarrow> int \<Rightarrow> js_error option \<times> TRINITIMemorySystem" where
  "initialize sys ls now =
     (let es = retrieveEntries ls now
      in case refresh_error es of
           Some e \<Rightarrow> (Some e, sys\<lparr>sys_entries := es\<rparr>)
         | None \<Rightarrow> (None, sys\<lparr>sys_entries := es, isInitialized := True\<rparr>))"

text \<open>The facade's own \<open>validateEntry\<close>: it neither looks at \<open>result\<close> nor excludes a \<open>null\<close>
  \<open>metadata\<close>, whose fields it then fails to read.\<close>

definition facade_validateEntry :: "jsval \<Rightarrow> js_error + bool" where
  "facade_validateEntry entry =
     (if \<not> truthy entry \<or> typeof entry \<noteq> ''object'' then Inr False
      else if \<not> (typeof (field entry ''id'') = ''string'' \<and>
                  typeof (field entry ''timestamp'') = ''number'' \<and>
                  typeof (field entry ''task'') = ''string'' \<and>
                  typeof (field entry ''metadata'') = ''object'') then Inr False
      else (case get_prop (field entry ''metadata'') ''success'' of
              Inl e \<Rightarrow> Inl e
            | Inr s \<Rightarrow>
                Inr (typeof s = ''boolean'' \<and>
                     typeof (field (field entry ''metadata'') ''duration'') = ''number'')))"

text \<open>The entry that \<open>recordTask\<close> builds, with the duration assigned after construction; reading
  the overrides throws when they are \<open>null\<close> (\<open>undefined\<close> is replaced by \<open>{}\<close>).\<close>

definition build_entry :: "jsval \<Rightarrow> jsval \<Rightarrow> jsval \<Rightarrow> Env \<Rightarrow> js_error + jsval" where
  "build_entry tsk res md env =
     (let overrides = (if md = JUndefined then JObj [] else md)
      in case get_prop overrides ''success'' of
           Inl e \<Rightarrow> Inl e
         | Inr s \<Rightarrow>
             Inr (JObj
               [(''id'', JStr (new_id env)),
                (''timestamp'', JNum (date_now env)),
                (''task'', JStr (safeguardString tsk ''Unknown task'')),
                (''result'', if truthy res then res else JObj []),
                (''metadata'', JObj
                   [(''success'', JBool (safeguardBoolean s True)),
                    (''duration'', JNum (perf_end env - perf_start env)),
                    (''errors'', if isArray (field overrides ''errors'')
                                 then field overrides ''errors'' else JArr []),
                    (''tags'', if isArray (field overrides ''tags'')
                               then field overrides ''tags'' else JArr []),
                    (''priority'', safeguardNumber (field overrides ''priority'') 5)])]))"

text \<open>
  \<open>recordTask\<close>. The result is the id, or the exception the promise is rejected with, together
  with the facade and the medium as the call leaves them.
\<close>

definition recordTask ::
  "TRINITIMemorySystem \<Rightarrow> localStorage \<Rightarrow> jsval \<Rightarrow> jsval \<Rightarrow> jsval \<Rightarrow> Env \<Rightarrow>
     (js_error + string) \<times> TRINITIMemorySystem \<times> localStorage" where
  "recordTask sys ls tsk res md env =
     (case (if isInitialized sys then (None, sys) else initialize sys ls (date_now env)) of
        (Some e, sys1) \<Rightarrow> (Inl e, sys1, ls)
      | (None, sys1) \<Rightarrow>
          (case build_entry tsk res md env of
             Inl e \<Rightarrow> (Inl e, sys1, ls)
           | Inr entry \<Rightarrow>
               (case facade_validateEntry entry of
                  Inl e \<Rightarrow> (Inl e, sys1, ls)
                | Inr False \<Rightarrow> (Inl (Error ''Invalid memory entry structure''), sys1, ls)
                | Inr True \<Rightarrow>
                    (case saveEntry entry (date_now env) ls of
                       (Some e, ls1) \<Rightarrow> (Inl e, sys1, ls1)
                     | (None, ls1) \<Rightarrow>
                         (let sys2 = sys1\<lparr>sys_entries := sys_entries sys1 @ [entry]\<rparr>
                          in case refresh_error (sys_entries sys2) of
                               Some e \<Rightarrow> (Inl e, sys2, ls1)
                             | None \<Rightarrow> (Inr (new_id env), sys2, ls1))))))"

section \<open>Memory facade, in-memory version (services/TRINITIMemorySystem.ts, sync)\<close>

text \<open>
  The facade holds a \<open>Map\<close> from ids to entries, in insertion order, and the bound
  \<open>MAX_ENTRIES\<close>; it writes each entry to the medium under its own key prefix.
\<close>

record MemorySystemSync =
  storage :: "(string \<times> jsval) list"
  MAX_ENTRIES :: nat

definition STORAGE_KEY_PREFIX :: string where
  "STORAGE_KEY_PREFIX = ''triniti_memory_''"

text \<open>The facade over an empty medium, as the constructor leaves it.\<close>

definition new_sync_system :: MemorySystemSync where
  "new_sync_system = \<lparr>storage = [], MAX_ENTRIES = 1000\<rparr>"

text \<open>Optional chaining \<open>v?.k\<close>.\<close>

definition opt_prop :: "jsval \<Rightarrow> string \<Rightarrow> jsval" where
  "opt_prop v k = (if v = JUndefined \<or> v = JNull then JUndefined else field v k)"

text \<open>\<open>extractErrors\<close> on the values of the model (which has no \<open>Error\<close> instances).\<close>

definition extractErrors :: "jsval \<Rightarrow> jsval" where
  "extractErrors res =
     (case res of
        JObj ps \<Rightarrow>
          JArr (concat (map (\<lambda>key. case map_of ps key of
                                      Some (JStr s) \<Rightarrow> [JStr s]
                                    | _ \<Rightarrow> [])
                            [''error'', ''errors'', ''message'', ''msg'']))
      | _ \<Rightarrow> JArr [])"

text \<open>\<open>a < b\<close> on numbers; the timestamps of stored entries are numbers.\<close>

definition js_less :: "jsval \<Rightarrow> jsval \<Rightarrow> bool" where
  "js_less a b = (case (to_number a, to_number b) of (JNum x, JNum y) \<Rightarrow> x < y | _ \<Rightarrow> False)"

definition removeFromDisk :: "localStorage \<Rightarrow> string \<Rightarrow> localStorage" where
  "removeFromDisk ls i = removeItem ls (STORAGE_KEY_PREFIX @ i)"

text \<open>\<open>persistToDisk\<close>: a failure of \<open>JSON.stringify\<close> or of \<open>setItem\<close> is logged and the medium
  is left as it was.\<close>

definition persistToDisk :: "localStorage \<Rightarrow> string \<Rightarrow> jsval \<Rightarrow> localStorage" where
  "persistToDisk ls i entry =
     (case JSON_stringify entry of
        Inr (Some t) \<Rightarrow> (case setItem ls (STORAGE_KEY_PREFIX @ i) t of Inl e \<Rightarrow> ls | Inr ls1 \<Rightarrow> ls1)
      | _ \<Rightarrow> ls)"

text \<open>The callback of \<open>reduce\<close> in \<open>prune\<close>.\<close>

definition older :: "string \<times> jsval \<Rightarrow> string \<times> jsval \<Rightarrow> string \<times> jsval" where
  "older oldest current =
     (if js_less (field (snd current) ''timestamp'') (field (snd oldest) ''timestamp'')
      then current else oldest)"

text \<open>\<open>prune\<close>: \<open>reduce\<close> without an initial value throws on an empty array.\<close>

definition prune ::
  "MemorySystemSync \<Rightarrow> localStorage \<Rightarrow> js_error + MemorySystemSync \<times> localStorage" where
  "prune sys ls =
     (if length (storage sys) \<ge> MAX_ENTRIES sys then
        (case storage sys of
           [] \<Rightarrow> Inl (TypeError ''Reduce of empty array with no initial value'')
         | first # rest \<Rightarrow>
             (let oldestEntry = foldl older first rest
              in Inr (sys\<lparr>storage := filter (\<lambda>p. fst p \<noteq> fst oldestEntry) (storage sys)\<rparr>,
                      removeFromDisk ls (fst oldestEntry))))
      else Inr (sys, ls))"

text \<open>\<open>Map.prototype.set\<close>: an existing key keeps its place.\<close>

fun map_set :: "(string \<times> jsval) list \<Rightarrow> string \<Rightarrow> jsval \<Rightarrow> (string \<times> jsval) list" where
  "map_set [] k v = [(k, v)]"
| "map_set (p # ps) k v = (if fst p = k then (k, v) # ps else p # map_set ps k v)"

text \<open>The entry that \<open>record\<close> builds: a supplied duration is kept unless it is falsy, in which
  case the measured time is stored.\<close>

definition build_entry_sync :: "jsval \<Rightarrow> jsval \<Rightarrow> jsval \<Rightarrow> Env \<Rightarrow> jsval" where
  "build_entry_sync tsk res options env =
     JObj [(''id'', JStr (new_id env)),
           (''timestamp'', JNum (date_now env)),
           (''task'', JStr (safeguardString tsk [])),
           (''result'', res),
           (''metadata'', JObj
              [(''success'', JBool (safeguardBoolean (opt_prop options ''success'') True)),
               (''duration'',
                  if \<not> truthy (opt_prop options ''duration'')
                  then JNum (perf_end env - perf_start env)
                  else safeguardNumber (opt_prop options ''duration'') 0),
               (''errors'', extractErrors res),
               (''tags'', if truthy (opt_prop options ''tags'')
                          then opt_prop options ''tags'' else JArr []),
               (''priority'', safeguardNumber (opt_prop options ''priority'') 5)])]"

definition record_sync ::
  "MemorySystemSync \<Rightarrow> localStorage \<Rightarrow> jsval \<Rightarrow> jsval \<Rightarrow> jsval \<Rightarrow> Env \<Rightarrow>
     (js_error + string) \<times> MemorySystemSync \<times> localStorage" where
  "record_sync sys ls tsk res options env =
     (let entry = build_entry_sync tsk res options env
      in case prune sys ls of
           Inl e \<Rightarrow> (Inl e, sys, ls)
         | Inr (sys1, ls1) \<Rightarrow>
             (Inr (new_id env),
              sys1\<lparr>storage := map_set (storage sys1) (new_id env) entry\<rparr>,
              persistToDisk ls1 (new_id env) entry))"

text \<open>
  The tag step of \<open>searchTasks\<close>, which runs when \<open>options.tags\<close> is a non-empty list:
  \<open>results.filter(entry => options.tags.some(tag => entry.metadata.tags?.includes(tag)))\<close>.
  An array has the element test, a string the substring test, \<open>undefined\<close> and \<open>null\<close> stop the
  optional chain, and any other value has no \<open>includes\<close>.
\<close>

definition tags_include :: "jsval \<Rightarrow> string \<Rightarrow> js_error + bool" where
  "tags_include entry tag =
     (case field (field entry ''metadata'') ''tags'' of
        JUndefined \<Rightarrow> Inr False
      | JNull \<Rightarrow> Inr False
      | JArr xs \<Rightarrow> Inr (JStr tag \<in> set xs)
      | JStr s \<Rightarrow> Inr (str_includes s tag)
      | _ \<Rightarrow> Inl (TypeError ''entry.metadata.tags.includes is not a function''))"

fun some_tag :: "jsval \<Rightarrow> string list \<Rightarrow> js_error + bool" where
  "some_tag entry [] = Inr False"
| "some_tag entry (tag # rest) =
     (case tags_include entry tag of
        Inl e \<Rightarrow> Inl e
      | Inr True \<Rightarrow> Inr True
      | Inr False \<Rightarrow> some_tag entry rest)"

definition searchTasks_tag_step :: "string list \<Rightarrow> jsval list \<Rightarrow> js_error + jsval list" where
  "searchTasks_tag_step required results = filter_js (\<lambda>entry. some_tag entry required) results"

text \<open>The timestamp of an entry of the \<open>Map\<close>.\<close>

definition entry_timestamp :: "string \<times> jsval \<Rightarrow> jsval" where
  "entry_timestamp p = field (snd p) ''timestamp''"

section \<open>Concrete inputs\<close>

text \<open>Search options with every field omitted.\<close>

definition no_options :: SearchOptions where
  "no_options =
     \<lparr>query = None, timeframe = None, successOnly = None, opt_tags = None,
      minDuration = None, maxDuration = None, limit = None, sortBy = None, sortOrder = None\<rparr>"

text \<open>The two entries of the scenario of the specification: a successful task
  \<open>Create file test.txt\<close> of duration 120 and a failed task \<open>Deploy build\<close>.\<close>

definition entry_create_file :: MemoryEntry where
  "entry_create_file =
     \<lparr>entry_id = ''task_1000_a1'', timestamp = 1000, task = ''Create file test.txt'',
      result = JObj [],
      metadata = \<lparr>success = True, duration = 120, errors = Some [], tags = Some [''a'', ''b''],
                  priority = Some 5\<rparr>\<rparr>"

definition entry_deploy_build :: MemoryEntry where
  "entry_deploy_build =
     \<lparr>entry_id = ''task_2000_b2'', timestamp = 2000, task = ''Deploy build'',
      result = JObj [],
      metadata = \<lparr>success = False, duration = 30, errors = Some [], tags = Some [''a''],
                  priority = Some 5\<rparr>\<rparr>"

text \<open>An entry whose payload holds a BigInt, which \<open>JSON.stringify\<close> refuses.\<close>

definition entry_bigint :: MemoryEntry where
  "entry_bigint =
     \<lparr>entry_id = ''task_3000_c3'', timestamp = 3000, task = ''Count rows'',
      result = JObj [(''rows'', JBigInt 10)],
      metadata = \<lparr>success = True, duration = 7, errors = Some [], tags = Some [],
                  priority = Some 5\<rparr>\<rparr>"

text \<open>Two entries with short task texts.\<close>

definition entry_ab :: MemoryEntry where
  "entry_ab =
     \<lparr>entry_id = ''task_1_x'', timestamp = 1, task = ''Ab'', result = JObj [],
      metadata = \<lparr>success = True, duration = 1, errors = Some [], tags = Some [],
                  priority = Some 5\<rparr>\<rparr>"

definition entry_xy :: MemoryEntry where
  "entry_xy =
     \<lparr>entry_id = ''task_2_y'', timestamp = 2, task = ''xy'', result = JObj [],
      metadata = \<lparr>success = True, duration = 1, errors = Some [], tags = Some [],
                  priority = Some 5\<rparr>\<rparr>"

text \<open>An entry whose task text is at distance 2 from \<open>abc\<close>, and the double nearest to one
  third.\<close>

definition entry_axx :: MemoryEntry where
  "entry_axx =
     \<lparr>entry_id = ''task_3_z'', timestamp = 3, task = ''Axx'', result = JObj [],
      metadata = \<lparr>success = True, duration = 1, errors = Some [], tags = Some [],
                  priority = Some 5\<rparr>\<rparr>"

definition one_third :: number where
  "one_third = Finite (6004799503160661 / 18014398509481984)"

text \<open>An empty medium, and candidates for \<open>saveEntry\<close>: a well-formed entry, the same with
  the empty string as its id, and one without \<open>metadata.duration\<close>.\<close>

definition empty_storage :: localStorage where
  "empty_storage = \<lparr>items = [], quota = 4096\<rparr>"

definition valid_entry :: jsval where
  "valid_entry =
     JObj [(''id'', JStr ''t1''), (''timestamp'', JNum 7), (''task'', JStr ''x''),
           (''result'', JObj []),
           (''metadata'', JObj [(''success'', JBool True), (''duration'', JNum 3)])]"

definition empty_id_entry :: jsval where
  "empty_id_entry =
     JObj [(''id'', JStr []), (''timestamp'', JNum 7), (''task'', JStr ''x''),
           (''result'', JObj []),
           (''metadata'', JObj [(''success'', JBool True), (''duration'', JNum 3)])]"

definition no_duration_entry :: jsval where
  "no_duration_entry =
     JObj [(''id'', JStr ''t2''), (''timestamp'', JNum 7), (''task'', JStr ''x''),
           (''result'', JObj []),
           (''metadata'', JObj [(''success'', JBool True)])]"

text \<open>A medium written by other means: it holds the JSON text of \<open>valid_entry\<close> (encoded
  once) and an index that lists it.\<close>

definition json_text :: "jsval \<Rightarrow> string" where
  "json_text v = (case JSON_stringify v of Inr (Some t) \<Rightarrow> t | _ \<Rightarrow> [])"

definition legacy_storage :: localStorage where
  "legacy_storage =
     \<lparr>items = [(''TRINITI_MEMORY_t1'', json_text valid_entry),
               (''TRINITI_MEMORY_INDEX'',
                json_text (JObj [(''entryIds'', JArr [JStr ''t1'']), (''lastUpdated'', JNum 1),
                                 (''totalEntries'', JNum 1), (''storageSize'', JNum 0)]))],
      quota = 4096\<rparr>"

text \<open>A stored entry whose only tag is \<open>a\<close>.\<close>

definition tagged_a_entry :: jsval where
  "tagged_a_entry =
     JObj [(''id'', JStr ''t3''), (''timestamp'', JNum 7), (''task'', JStr ''x''),
           (''result'', JObj []),
           (''metadata'', JObj [(''success'', JBool True), (''duration'', JNum 3),
                                (''tags'', JArr [JStr ''a''])])]"

text \<open>The environment of one call of \<open>recordTask\<close>, overrides that supply a duration of 120, the
  entry that \<open>recordTask('x', {})\<close> builds in that environment, and a facade whose working set
  holds as many entries as its \<open>storageLimit\<close>, numbered by their timestamps.\<close>

definition env_1 :: Env where
  "env_1 = \<lparr>new_id = ''task_1000_k3j'', date_now = 1000, perf_start = 50, perf_end = 51\<rparr>"

definition overrides_120 :: jsval where
  "overrides_120 = JObj [(''success'', JBool True), (''duration'', JNum 120)]"

definition numbered_entry :: "nat \<Rightarrow> jsval" where
  "numbered_entry i =
     JObj [(''id'', JStr (''task_'' @ show_nat i)), (''timestamp'', JNum (int i)),
           (''task'', JStr ''x''), (''result'', JObj []),
           (''metadata'', JObj [(''success'', JBool True), (''duration'', JNum 1),
                                (''errors'', JArr []), (''tags'', JArr []),
                                (''priority'', JNum 5)])]"

definition full_entries :: "jsval list" where
  "full_entries = map numbered_entry [0..<10000]"

definition full_system :: TRINITIMemorySystem where
  "full_system = \<lparr>sys_entries = full_entries, isInitialized = True, storageLimit = 10000\<rparr>"

definition recorded_x :: jsval where
  "recorded_x =
     JObj [(''id'', JStr ''task_1000_k3j''), (''timestamp'', JNum 1000),
           (''task'', JStr ''x''), (''result'', JObj []),
           (''metadata'', JObj [(''success'', JBool True), (''duration'', JNum 1),
                                (''errors'', JArr []), (''tags'', JArr []),
                                (''priority'', JNum 5)])]"

section \<open>Properties of the search engine\<close>

subsection \<open>Filtering, sorting and truncation\<close>

lemma filter_js_Inr:
  "filter_js p xs = Inr ys \<Longrightarrow> ys = filter (\<lambda>x. p x = Inr True) xs"
  by (induction xs arbitrary: ys) (auto split: sum.splits if_splits)

lemma filter_js_total:
  "(\<And>x. x \<in> set xs \<Longrightarrow> p x = Inr (q x)) \<Longrightarrow> filter_js p xs = Inr (filter q xs)"
  by (induction xs) auto

lemma set_insert_js: "set (insert_js cmp x ys) = insert x (set ys)"
  by (induction ys) auto

lemma set_sort_js: "set (sort_js cmp xs) = set xs"
  by (induction xs) (auto simp: set_insert_js)



lemma set_sortResults: "set (sortResults rs by ord) = set rs"
  by (auto simp: sortResults_def set_sort_js split: option.splits)


lemma search_try_subset:
  assumes "search_try m options = Inr (rs, sg)"
  shows "set rs \<subseteq> {e \<in> set m. search_filter options e = Inr True}"
proof -
  from assms obtain r0 where r0: "filter_js (search_filter options) m = Inr r0"
    and rs: "set rs \<subseteq> set (sortResults r0 (sortBy options) (sortOrder options))"
    by (auto simp: search_try_def Let_def split: sum.splits option.splits if_splits
             dest: in_set_takeD)
  from filter_js_Inr[OF r0] rs show ?thesis
    by (auto simp: set_sortResults)
qed

lemma search_entries_filter:
  "e \<in> set (entries (search m options t0 t1)) \<Longrightarrow>
     e \<in> set m \<and> search_filter options e = Inr True"
  using search_try_subset[of m options]
  by (auto simp: search_def split: sum.splits prod.splits)

lemma search_filter_no_query:
  "query options = None \<Longrightarrow>
     search_filter options e =
       Inr (matchTimeframe e (timeframe options) \<and>
            (case successOnly options of None \<Rightarrow> True | Some b \<Rightarrow> success (metadata e) = b) \<and>
            (case opt_tags options of None \<Rightarrow> True | Some ts \<Rightarrow> length ts = 0 \<or> matchTags e ts) \<and>
            matchDuration e (minDuration options) (maxDuration options))"
  by (simp add: search_filter_def)

lemma search_filter_successOnly:
  "search_filter (no_options\<lparr>successOnly := sel\<rparr>) e =
     Inr (case sel of None \<Rightarrow> True | Some b \<Rightarrow> success (metadata e) = b)"
  by (simp add: search_filter_no_query no_options_def matchTimeframe_def matchDuration_def)

lemma search_try_successOnly:
  "search_try m (no_options\<lparr>successOnly := sel\<rparr>) =
     Inr (filter (\<lambda>e. case sel of None \<Rightarrow> True | Some b \<Rightarrow> success (metadata e) = b) m, [])"
proof -
  have "filter_js (search_filter (no_options\<lparr>successOnly := sel\<rparr>)) m =
          Inr (filter (\<lambda>e. case sel of None \<Rightarrow> True | Some b \<Rightarrow> success (metadata e) = b) m)"
    by (rule filter_js_total) (rule search_filter_successOnly)
  then show ?thesis
    by (simp add: search_try_def sortResults_def generateSuggestions_def no_options_def)
qed

lemma search_filter_tags:
  assumes "search_filter options e = Inr True" "opt_tags options = Some T" "T \<noteq> []"
  shows "\<exists>ts. tags (metadata e) = Some ts \<and> set T \<subseteq> set ts"
  using assms
  by (auto simp: search_filter_def Let_def matchTags_def list_all_iff
           split: sum.splits option.splits)

lemmas scenario_defs =
  no_options_def entry_create_file_def entry_deploy_build_def entry_bigint_def

lemmas search_defs =
  search_def search_try_def search_filter_def matchTimeframe_def matchDuration_def
  matchTags_def sortResults_def generateSuggestions_def sort_compare_def sort_comparison_def

subsection \<open>Success filter\<close>

text \<open>
  C2. The claim says that \<open>search({successOnly:false})\<close> returns both the successful and the
  failed entry. In the code the filter is the comparison
  \<open>entry.metadata.success === options.successOnly\<close>, so on the scenario of the specification the
  successful entry \<open>Create file test.txt\<close> is not returned.
\<close>

theorem search_successOnly_false_counterexample:
  "entry_create_file \<notin> set (entries (search [entry_create_file, entry_deploy_build]
                                         (no_options\<lparr>successOnly := Some False\<rparr>) 0 1))"
  by (simp add: search_defs scenario_defs)

text \<open>
  C2, as amended. \<open>successOnly\<close> is an exact match on \<open>metadata.success\<close>: with no other filter,
  \<open>search({successOnly:b})\<close> returns exactly the entries whose \<open>success\<close> is \<open>b\<close>, in the order of
  the working set (so \<open>false\<close> returns only the failed entries and \<open>true\<close> only the successful
  ones); every entry is returned only when \<open>successOnly\<close> is omitted; and whatever the other
  options are, every entry returned under \<open>successOnly:b\<close> has \<open>success = b\<close>.
\<close>

theorem search_successOnly_exact:
  "entries (search m (no_options\<lparr>successOnly := Some b\<rparr>) t0 t1) =
     filter (\<lambda>e. success (metadata e) = b) m \<and>
   entries (search m (no_options\<lparr>successOnly := None\<rparr>) t0 t1) = m \<and>
   (\<forall>options. successOnly options = Some b \<longrightarrow>
      (\<forall>e \<in> set (entries (search m options t0 t1)). success (metadata e) = b))"
proof (intro conjI allI impI ballI)
  show "entries (search m (no_options\<lparr>successOnly := Some b\<rparr>) t0 t1) =
          filter (\<lambda>e. success (metadata e) = b) m"
    by (simp add: search_def search_try_successOnly)
  show "entries (search m (no_options\<lparr>successOnly := None\<rparr>) t0 t1) = m"
    by (simp add: search_def search_try_successOnly)
next
  fix options e
  assume sel: "successOnly options = Some b"
    and e: "e \<in> set (entries (search m options t0 t1))"
  from search_entries_filter[OF e] have "search_filter options e = Inr True" by simp
  with sel show "success (metadata e) = b"
    by (auto simp: search_filter_def Let_def split: sum.splits)
qed

theorem search_successOnly_exact_witness:
  "entries (search [entry_create_file, entry_deploy_build]
              (no_options\<lparr>successOnly := Some False\<rparr>) 0 1) = [entry_deploy_build] \<and>
   entries (search [entry_create_file, entry_deploy_build]
              (no_options\<lparr>successOnly := Some True\<rparr>) 0 1) = [entry_create_file] \<and>
   entries (search [entry_create_file, entry_deploy_build]
              (no_options\<lparr>successOnly := None\<rparr>) 0 1) = [entry_create_file, entry_deploy_build] \<and>
   successOnly (no_options\<lparr>successOnly := Some False, limit := Some 1\<rparr>) = Some False \<and>
   entry_deploy_build \<in> set (entries (search [entry_create_file, entry_deploy_build]
                         (no_options\<lparr>successOnly := Some False, limit := Some 1\<rparr>) 0 1)) \<and>
   success (metadata entry_deploy_build) = False"
proof -
  let ?m = "[entry_create_file, entry_deploy_build]"
  let ?o = "no_options\<lparr>successOnly := Some False, limit := Some 1\<rparr>"
  have sel: "successOnly ?o = Some False" by simp
  have mem: "entry_deploy_build \<in> set (entries (search ?m ?o 0 1))"
    by (simp add: search_defs scenario_defs)
  from search_successOnly_exact[of ?m False 0 1] sel mem
  have "success (metadata entry_deploy_build) = False" by blast
  with sel mem search_successOnly_exact[of ?m False 0 1] search_successOnly_exact[of ?m True 0 1]
  show ?thesis by (simp add: scenario_defs)
qed

subsection \<open>Relevance order\<close>

text \<open>
  Under the default order \<open>desc\<close> the comparison function of the \<open>relevance\<close> sort looks at its
  second argument only, and between a successful and a failed entry it asks, in either order
  of the arguments, for the failed one to come first.
\<close>

lemma relevance_desc_compare:
  assumes "success (metadata s)" "\<not> success (metadata f)"
  shows "sort_compare ''relevance'' Desc s f > 0" and "sort_compare ''relevance'' Desc f s < 0"
  using assms by (simp_all add: sort_compare_def sort_comparison_def)

text \<open>
  C3. The claim says that with \<open>sortBy:'relevance'\<close> and the default order every successful
  entry comes before every failed one. On the working set of the scenario (one successful
  entry followed by one failed entry) the code returns the failed entry first.
\<close>

theorem search_relevance_failed_first:
  "entries (search [entry_create_file, entry_deploy_build]
              (no_options\<lparr>sortBy := Some ''relevance''\<rparr>) 0 1) =
     [entry_deploy_build, entry_create_file]"
  by (simp add: search_defs scenario_defs)

subsection \<open>Tag filter\<close>

text \<open>
  C6. Tag filtering has AND semantics: for a non-empty list \<open>T\<close> of required tags, every entry
  that \<open>search\<close> returns has a tag list containing every tag of \<open>T\<close>, and an entry whose tags
  miss a tag of \<open>T\<close> (or that has no tag list) is not returned.
\<close>

theorem search_tags_and:
  assumes "opt_tags options = Some T" and "T \<noteq> []"
  shows "(\<forall>e \<in> set (entries (search m options t0 t1)).
            \<exists>ts. tags (metadata e) = Some ts \<and> set T \<subseteq> set ts) \<and>
         (\<forall>e. (\<forall>ts. tags (metadata e) = Some ts \<longrightarrow> \<not> set T \<subseteq> set ts) \<longrightarrow>
              e \<notin> set (entries (search m options t0 t1)))"
  using search_filter_tags[OF _ assms] search_entries_filter[of _ m options t0 t1]
  by blast

theorem search_tags_and_witness:
  "opt_tags (no_options\<lparr>opt_tags := Some [''a'', ''b'']\<rparr>) = Some [''a'', ''b''] \<and>
   [''a'', ''b''] \<noteq> ([] :: string list) \<and>
   entries (search [entry_create_file, entry_deploy_build]
              (no_options\<lparr>opt_tags := Some [''a'', ''b'']\<rparr>) 0 1) = [entry_create_file] \<and>
   (\<exists>ts. tags (metadata entry_create_file) = Some ts \<and> set [''a'', ''b''] \<subseteq> set ts) \<and>
   tags (metadata entry_deploy_build) = Some [''a''] \<and>
   entry_deploy_build \<notin> set (entries (search [entry_create_file, entry_deploy_build]
                                         (no_options\<lparr>opt_tags := Some [''a'', ''b'']\<rparr>) 0 1))"
proof -
  let ?o = "no_options\<lparr>opt_tags := Some [''a'', ''b'']\<rparr>"
  let ?m = "[entry_create_file, entry_deploy_build]"
  have h1: "opt_tags ?o = Some [''a'', ''b'']" by simp
  have h2: "[''a'', ''b''] \<noteq> ([] :: string list)" by simp
  have ev: "entries (search ?m ?o 0 1) = [entry_create_file]"
    by (simp add: search_defs scenario_defs)
  have tg: "tags (metadata entry_deploy_build) = Some [''a'']"
    by (simp add: entry_deploy_build_def)
  then have miss: "\<forall>ts. tags (metadata entry_deploy_build) = Some ts \<longrightarrow>
                     \<not> set [''a'', ''b''] \<subseteq> set ts"
    by simp
  note inst = search_tags_and[OF h1 h2, of ?m 0 1]
  from inst miss have out: "entry_deploy_build \<notin> set (entries (search ?m ?o 0 1))"
    by blast
  from inst ev have "\<exists>ts. tags (metadata entry_create_file) = Some ts \<and>
                      set [''a'', ''b''] \<subseteq> set ts"
    by simp
  with h1 h2 ev tg out show ?thesis by blast
qed

subsection \<open>Failure inside \<open>search\<close>\<close>

lemma search_try_fails_iff:
  "search_try m options = Inl e \<longleftrightarrow> filter_js (search_filter options) m = Inl e"
  by (auto simp: search_try_def Let_def split: sum.splits)

text \<open>
  C9. \<open>search\<close> does not throw: it is a total function of the working set, the options and
  the clock readings, and when a step of its \<open>try\<close> block fails (in this model the filter
  callback is the step that can, and the \<open>try\<close> block fails exactly when it does) the result
  has an empty entries list, \<open>totalCount = 0\<close> and the measured elapsed time.
\<close>

theorem search_never_throws:
  "(search_try m options = Inl e \<longrightarrow>
      search m options t0 t1 =
        \<lparr>entries = [], totalCount = 0, searchTime = t1 - t0, filters = options,
         suggestions = None\<rparr>) \<and>
   (filter_js (search_filter options) m = Inl e \<longrightarrow>
      entries (search m options t0 t1) = [] \<and>
      totalCount (search m options t0 t1) = 0 \<and>
      searchTime (search m options t0 t1) = t1 - t0)"
proof (intro conjI impI)
  assume "search_try m options = Inl e"
  then show "search m options t0 t1 =
      \<lparr>entries = [], totalCount = 0, searchTime = t1 - t0, filters = options, suggestions = None\<rparr>"
    by (simp add: search_def)
next
  assume "filter_js (search_filter options) m = Inl e"
  then have f: "search_try m options = Inl e"
    by (simp add: search_try_fails_iff)
  show "entries (search m options t0 t1) = []" using f by (simp add: search_def)
  show "totalCount (search m options t0 t1) = 0" using f by (simp add: search_def)
  show "searchTime (search m options t0 t1) = t1 - t0" using f by (simp add: search_def)
qed

theorem search_never_throws_witness:
  "search_try [entry_create_file, entry_bigint] (no_options\<lparr>query := Some ''deploy''\<rparr>) =
     Inl (TypeError ''Do not know how to serialize a BigInt'') \<and>
   search [entry_create_file, entry_bigint] (no_options\<lparr>query := Some ''deploy''\<rparr>) 5 9 =
     \<lparr>entries = [], totalCount = 0, searchTime = 4,
      filters = no_options\<lparr>query := Some ''deploy''\<rparr>, suggestions = None\<rparr>"
proof -
  have f: "search_try [entry_create_file, entry_bigint] (no_options\<lparr>query := Some ''deploy''\<rparr>) =
             Inl (TypeError ''Do not know how to serialize a BigInt'')"
    by code_simp
  from search_never_throws[of "[entry_create_file, entry_bigint]"
         "no_options\<lparr>query := Some ''deploy''\<rparr>"
         "TypeError ''Do not know how to serialize a BigInt''" 5 9] f
  show ?thesis by simp
qed

subsection \<open>Total count\<close>



section \<open>Properties of the similarity search\<close>

subsection \<open>The matrix of \<open>levenshteinDistance\<close> holds the classic distance\<close>

lemma fold_upt_invariant:
  assumes "a \<le> b" and "P a s"
    and "\<And>k t. a \<le> k \<Longrightarrow> k < b \<Longrightarrow> P k t \<Longrightarrow> P (Suc k) (f k t)"
  shows "P b (fold f [a..<b] s)"
  using assms
proof (induction b)
  case 0
  then show ?case by simp
next
  case (Suc b)
  show ?case
  proof (cases "a = Suc b")
    case True
    with Suc.prems show ?thesis by simp
  next
    case False
    with Suc.prems have ab: "a \<le> b" by simp
    have "P b (fold f [a..<b] s)"
      using ab Suc.prems(2) Suc.prems(3) by (intro Suc.IH) auto
    then have "P (Suc b) (f b (fold f [a..<b] s))"
      using ab by (intro Suc.prems(3)) auto
    with ab show ?thesis by simp
  qed
qed

lemma dims_dp_set: "dims m n dp \<Longrightarrow> i \<le> m \<Longrightarrow> dims m n (dp_set dp i j v)"
  by (auto simp: dims_def dp_set_def nth_list_update)

lemma nth_dp_set:
  "dims m n dp \<Longrightarrow> i \<le> m \<Longrightarrow> j \<le> n \<Longrightarrow> r \<le> m \<Longrightarrow> c \<le> n \<Longrightarrow>
     dp_set dp i j v ! r ! c = (if r = i \<and> c = j then v else dp ! r ! c)"
  by (auto simp: dims_def dp_set_def nth_list_update)

lemma filled_mono:
  assumes "filled s1 s2 m n known dp"
    and "\<And>r c. r \<le> m \<Longrightarrow> c \<le> n \<Longrightarrow> known' r c \<Longrightarrow> known r c"
  shows "filled s1 s2 m n known' dp"
  using assms unfolding filled_def by blast

lemma lev_0_right [simp]: "lev s1 s2 i 0 = i"
  by (cases i) auto

lemma column_loop:
  assumes "dims m n dp0"
  shows "filled s1 s2 m n (\<lambda>r c. c = 0) (fold (\<lambda>i dp. dp_set dp i 0 i) [0..<m + 1] dp0)"
proof -
  let ?P = "\<lambda>k dp. filled s1 s2 m n (\<lambda>r c. c = 0 \<and> r < k) dp"
  have "?P (m + 1) (fold (\<lambda>i dp. dp_set dp i 0 i) [0..<m + 1] dp0)"
  proof (rule fold_upt_invariant)
    show "0 \<le> m + 1" by simp
    show "?P 0 dp0" using assms by (simp add: filled_def)
  next
    fix k t assume "k < m + 1" "?P k t"
    then show "?P (Suc k) (dp_set t k 0 k)"
      by (auto simp: filled_def dims_dp_set nth_dp_set less_Suc_eq)
  qed
  then show ?thesis by (auto simp: filled_def)
qed

lemma row_loop:
  assumes "filled s1 s2 m n (\<lambda>r c. c = 0) dp1"
  shows "filled s1 s2 m n (\<lambda>r c. c = 0 \<or> r = 0) (fold (\<lambda>j dp. dp_set dp 0 j j) [0..<n + 1] dp1)"
proof -
  let ?P = "\<lambda>k dp. filled s1 s2 m n (\<lambda>r c. c = 0 \<or> (r = 0 \<and> c < k)) dp"
  have "?P (n + 1) (fold (\<lambda>j dp. dp_set dp 0 j j) [0..<n + 1] dp1)"
  proof (rule fold_upt_invariant)
    show "0 \<le> n + 1" by simp
    show "?P 0 dp1" using assms by (simp add: filled_def)
  next
    fix k t assume "k < n + 1" "?P k t"
    then show "?P (Suc k) (dp_set t 0 k k)"
      by (auto simp: filled_def dims_dp_set nth_dp_set less_Suc_eq)
  qed
  then show ?thesis by (auto simp: filled_def)
qed

lemma cell_step:
  assumes f: "filled s1 s2 m n (before i j) dp" and i: "1 \<le> i" "i \<le> m" and j: "1 \<le> j" "j \<le> n"
  shows "filled s1 s2 m n (before i (Suc j)) (cell s1 s2 i j dp)"
proof -
  obtain i' j' where ij: "i = Suc i'" "j = Suc j'" using i j by (cases i; cases j) auto
  from f have d: "dims m n dp" by (simp add: filled_def)
  have a: "dp ! i' ! j = lev s1 s2 i' j" "dp ! i ! j' = lev s1 s2 i j'" "dp ! i' ! j' = lev s1 s2 i' j'"
    using f i j ij by (auto simp: filled_def before_def)
  have v: "min (min (dp ! (i - 1) ! j + 1) (dp ! i ! (j - 1) + 1))
                (dp ! (i - 1) ! (j - 1) + (if s1 ! (i - 1) = s2 ! (j - 1) then 0 else 1)) = lev s1 s2 i j"
    using a ij by simp
  show ?thesis
    unfolding filled_def
  proof (intro conjI allI impI)
    show "dims m n (cell s1 s2 i j dp)" using d i by (simp add: cell_def Let_def dims_dp_set)
  next
    fix r c assume h: "r \<le> m \<and> c \<le> n \<and> before i (Suc j) r c"
    show "cell s1 s2 i j dp ! r ! c = lev s1 s2 r c"
    proof (cases "r = i \<and> c = j")
      case True
      then show ?thesis using d i j v by (simp add: cell_def Let_def nth_dp_set)
    next
      case False
      with h have "before i j r c" by (auto simp: before_def less_Suc_eq)
      with f h have "dp ! r ! c = lev s1 s2 r c" by (simp add: filled_def)
      with False d i j h show ?thesis by (auto simp: cell_def Let_def nth_dp_set)
    qed
  qed
qed

lemma inner_loop:
  assumes f: "filled s1 s2 m n (before i 1) dp" and i: "1 \<le> i" "i \<le> m"
  shows "filled s1 s2 m n (before (Suc i) 1) (fold (cell s1 s2 i) [1..<n + 1] dp)"
proof -
  have "filled s1 s2 m n (before i (n + 1)) (fold (cell s1 s2 i) [1..<n + 1] dp)"
  proof (rule fold_upt_invariant[where P = "\<lambda>k. filled s1 s2 m n (before i k)"])
    show "1 \<le> n + 1" by simp
    show "filled s1 s2 m n (before i 1) dp" by (rule f)
  next
    fix k t assume "1 \<le> k" "k < n + 1" "filled s1 s2 m n (before i k) t"
    then show "filled s1 s2 m n (before i (Suc k)) (cell s1 s2 i k t)"
      using i by (intro cell_step) auto
  qed
  then show ?thesis
    by (rule filled_mono) (auto simp: before_def)
qed

lemma outer_loop:
  assumes f: "filled s1 s2 m n (before 1 1) dp"
  shows "filled s1 s2 m n (before (m + 1) 1) (fold (\<lambda>i. fold (cell s1 s2 i) [1..<n + 1]) [1..<m + 1] dp)"
proof (rule fold_upt_invariant[where P = "\<lambda>k. filled s1 s2 m n (before k 1)"])
  show "1 \<le> m + 1" by simp
  show "filled s1 s2 m n (before 1 1) dp" by (rule f)
next
  fix k t assume "1 \<le> k" "k < m + 1" "filled s1 s2 m n (before k 1) t"
  then show "filled s1 s2 m n (before (Suc k) 1) (fold (cell s1 s2 k) [1..<n + 1] t)"
    by (intro inner_loop) auto
qed

lemma levenshteinDistance_spec: "levenshteinDistance s1 s2 = levenshtein_spec s1 s2"
proof -
  let ?m = "length s1" and ?n = "length s2"
  let ?dp0 = "replicate (?m + 1) (replicate (?n + 1) (0::nat))"
  let ?dp1 = "fold (\<lambda>i dp. dp_set dp i 0 i) [0..<?m + 1] ?dp0"
  let ?dp2 = "fold (\<lambda>j dp. dp_set dp 0 j j) [0..<?n + 1] ?dp1"
  let ?dp3 = "fold (\<lambda>i. fold (cell s1 s2 i) [1..<?n + 1]) [1..<?m + 1] ?dp2"
  have "dims ?m ?n ?dp0" by (simp add: dims_def del: replicate.simps)
  then have "filled s1 s2 ?m ?n (\<lambda>r c. c = 0 \<or> r = 0) ?dp2"
    by (intro row_loop column_loop)
  then have "filled s1 s2 ?m ?n (before 1 1) ?dp2"
    by (auto simp: filled_def before_def)
  then have "filled s1 s2 ?m ?n (before (?m + 1) 1) ?dp3"
    by (rule outer_loop)
  then have "?dp3 ! ?m ! ?n = lev s1 s2 ?m ?n"
    by (simp add: filled_def before_def)
  moreover have "levenshteinDistance s1 s2 = ?dp3 ! ?m ! ?n"
    by (simp add: levenshteinDistance_def cell_def[abs_def] Let_def)
  ultimately show ?thesis by (simp add: levenshtein_spec_def)
qed


lemma lev_self: "lev s s i i = 0"
  by (induction i) auto

lemma levenshteinDistance_self: "levenshteinDistance s s = 0"
  by (simp add: levenshteinDistance_spec levenshtein_spec_def lev_self)

subsection \<open>Rounding to a double\<close>

text \<open>The bit length bounds a positive integer by powers of two.\<close>

lemma bit_length_bounds:
  "0 < a \<Longrightarrow> 1 \<le> bit_length a \<and> 2 ^ nat (bit_length a - 1) \<le> a \<and> a < 2 ^ nat (bit_length a)"
proof (induction a rule: bit_length.induct)
  case (1 a)
  show ?case
  proof (cases "a div 2 = 0")
    case True
    with 1(2) have "a = 1" by linarith
    then show ?thesis by (simp add: bit_length.simps[of 1] bit_length.simps[of 0])
  next
    case False
    with 1(2) have pos: "0 < a div 2" by linarith
    from 1(1)[OF _ pos] 1(2)
    have ih: "1 \<le> bit_length (a div 2)" "2 ^ nat (bit_length (a div 2) - 1) \<le> a div 2"
      "a div 2 < 2 ^ nat (bit_length (a div 2))" by auto
    have bl: "bit_length a = 1 + bit_length (a div 2)"
      using 1(2) by (subst bit_length.simps) simp
    have n: "nat (bit_length a - 1) = Suc (nat (bit_length (a div 2) - 1))"
      "nat (bit_length a) = Suc (nat (bit_length (a div 2)))"
      using ih(1) bl by auto
    have a: "2 * (a div 2) \<le> a" "a \<le> 2 * (a div 2) + 1" by presburger+
    show ?thesis
      using ih bl a unfolding n by (simp; linarith)
  qed
qed

lemma exponent_of_le:
  assumes "0 < x"
  shows "2 powi exponent_of x \<le> x"
proof -
  obtain a b where q: "quotient_of x = (a, b)" by (cases "quotient_of x")
  then have b: "0 < b" and x: "x = of_int a / of_int b"
    using quotient_of_denom_pos quotient_of_div by blast+
  with assms have a: "0 < a" by (simp add: zero_less_divide_iff)
  let ?e = "bit_length a - bit_length b"
  show ?thesis
  proof (cases "2 powi ?e \<le> x")
    case True
    then show ?thesis by (simp add: exponent_of_def q)
  next
    case False
    from bit_length_bounds[OF a] have la: "1 \<le> bit_length a" "2 ^ nat (bit_length a - 1) \<le> a" by auto
    from bit_length_bounds[OF b] have lb: "1 \<le> bit_length b" "b < 2 ^ nat (bit_length b)" by auto
    have "(2::rat) powi (bit_length a - 1) \<le> of_int a"
    proof -
      have "(2::rat) powi (bit_length a - 1) = 2 ^ nat (bit_length a - 1)"
        using la(1) by (simp add: power_int_def)
      also have "\<dots> = of_int (2 ^ nat (bit_length a - 1))" by simp
      also have "\<dots> \<le> of_int a" using la(2) by (simp only: of_int_le_iff)
      finally show ?thesis .
    qed
    moreover have "of_int b \<le> (2::rat) powi bit_length b"
    proof -
      have "(of_int b :: rat) \<le> of_int (2 ^ nat (bit_length b))" using lb(2) by (simp only: of_int_le_iff)
      also have "\<dots> = 2 powi bit_length b" using lb(1) by (simp add: power_int_def)
      finally show ?thesis .
    qed
    ultimately have "(2::rat) powi (bit_length a - 1) / 2 powi bit_length b \<le> of_int a / of_int b"
      using b a by (intro frac_le) auto
    moreover have "(2::rat) powi (?e - 1) = 2 powi (bit_length a - 1) / 2 powi bit_length b"
      by (simp add: power_int_diff)
    moreover have "exponent_of x = ?e - 1"
      using False by (simp add: exponent_of_def q)
    ultimately show ?thesis by (simp add: x)
  qed
qed

lemma round_half_even_ge:
  assumes "of_int n \<le> x"
  shows "n \<le> round_half_even x"
proof -
  from assms have "n \<le> \<lfloor>x\<rfloor>" by (simp add: le_floor_iff)
  then show ?thesis by (simp add: round_half_even_def Let_def)
qed

lemma round_positive_pos:
  assumes "0 < x"
  shows "0 < round_positive x"
proof -
  let ?u = "(2::rat) powi (exponent_of x - 52)"
  have u: "0 < ?u" by (simp add: zero_less_power_int)
  have "?u \<le> 2 powi exponent_of x"
    by (rule power_int_increasing) auto
  also have "\<dots> \<le> x" by (rule exponent_of_le[OF assms])
  finally have "1 \<le> x / ?u" using u by (simp add: le_divide_eq)
  then have "1 \<le> round_half_even (x / ?u)" by (intro round_half_even_ge) simp
  then have "0 < (of_int (round_half_even (x / ?u)) :: rat)" by simp
  then show ?thesis using u by (simp add: round_positive_def Let_def)
qed

lemma round_double_le_0: "round_double x \<le> 0 \<longleftrightarrow> x \<le> 0"
  using round_positive_pos[of x] round_positive_pos[of "- x"]
  by (auto simp: round_double_def not_le dest: less_imp_le)

lemma double_sub_le_0: "double_sub y x \<le> 0 \<longleftrightarrow> y \<le> x"
  by (simp add: double_sub_def round_double_le_0)


lemma exponent_of_gt:
  assumes "0 < x"
  shows "x < 2 powi (exponent_of x + 1)"
proof -
  obtain a b where q: "quotient_of x = (a, b)" by (cases "quotient_of x")
  then have b: "0 < b" and x: "x = of_int a / of_int b"
    using quotient_of_denom_pos quotient_of_div by blast+
  with assms have a: "0 < a" by (simp add: zero_less_divide_iff)
  let ?e = "bit_length a - bit_length b"
  show ?thesis
  proof (cases "2 powi ?e \<le> x")
    case False
    then have "exponent_of x = ?e - 1" by (simp add: exponent_of_def q)
    with False show ?thesis by simp
  next
    case True
    from bit_length_bounds[OF a] have la: "1 \<le> bit_length a" "a < 2 ^ nat (bit_length a)" by auto
    from bit_length_bounds[OF b] have lb: "1 \<le> bit_length b" "2 ^ nat (bit_length b - 1) \<le> b" by auto
    have "of_int a < (2::rat) powi bit_length a"
    proof -
      have "(of_int a :: rat) < of_int (2 ^ nat (bit_length a))" using la(2) by (simp only: of_int_less_iff)
      also have "\<dots> = 2 powi bit_length a" using la(1) by (simp add: power_int_def)
      finally show ?thesis .
    qed
    moreover have "(2::rat) powi (bit_length b - 1) \<le> of_int b"
    proof -
      have "(2::rat) powi (bit_length b - 1) = of_int (2 ^ nat (bit_length b - 1))"
        using lb(1) by (simp add: power_int_def)
      also have "\<dots> \<le> of_int b" using lb(2) by (simp only: of_int_le_iff)
      finally show ?thesis .
    qed
    ultimately have "of_int a / of_int b < (2::rat) powi bit_length a / 2 powi (bit_length b - 1)"
      using b a by (intro frac_less) auto
    moreover have "(2::rat) powi (?e + 1) = 2 powi bit_length a / 2 powi (bit_length b - 1)"
    proof -
      have "(2::rat) powi (?e + 1) = 2 powi (bit_length a - (bit_length b - 1))"
        by (rule arg_cong[where f = "power_int 2"]) simp
      also have "\<dots> = 2 powi bit_length a / 2 powi (bit_length b - 1)"
        by (rule power_int_diff) simp
      finally show ?thesis .
    qed
    moreover have "exponent_of x = ?e"
      using True by (simp add: exponent_of_def q)
    ultimately show ?thesis by (simp add: x)
  qed
qed

lemma round_half_even_le:
  assumes "x \<le> of_int n"
  shows "round_half_even x \<le> n"
proof (cases "x = of_int n")
  case True
  then show ?thesis by (simp add: round_half_even_def Let_def)
next
  case False
  with assms have "x < of_int n" by simp
  then have "\<lfloor>x\<rfloor> < n" by (simp add: floor_less_iff)
  then show ?thesis by (simp add: round_half_even_def Let_def)
qed

lemma round_half_even_error: "\<bar>of_int (round_half_even x) - x\<bar> \<le> 1 / 2"
proof -
  have "of_int \<lfloor>x\<rfloor> \<le> x" "x < of_int \<lfloor>x\<rfloor> + 1" by linarith+
  then show ?thesis by (auto simp: round_half_even_def Let_def)
qed

text \<open>The significand of a rounded positive number has 53 bits.\<close>

lemma round_positive_significand:
  assumes "0 < x"
  shows "2 ^ 52 \<le> round_half_even (x / 2 powi (exponent_of x - 52))"
    and "round_half_even (x / 2 powi (exponent_of x - 52)) \<le> 2 ^ 53"
proof -
  let ?u = "(2::rat) powi (exponent_of x - 52)"
  have u: "0 < ?u" by (simp add: zero_less_power_int)
  have lo: "2 powi exponent_of x = 2 ^ 52 * ?u" and hi: "2 powi (exponent_of x + 1) = 2 ^ 53 * ?u"
    by (simp_all add: power_int_diff power_int_add)
  from exponent_of_le[OF assms] lo u have "2 ^ 52 \<le> x / ?u" by (simp add: le_divide_eq)
  then show "2 ^ 52 \<le> round_half_even (x / ?u)" by (intro round_half_even_ge) simp
  from exponent_of_gt[OF assms] hi u have "x / ?u \<le> 2 ^ 53" by (simp add: divide_le_eq)
  then show "round_half_even (x / ?u) \<le> 2 ^ 53" by (intro round_half_even_le) simp
qed

lemma round_positive_error:
  assumes "0 < x"
  shows "\<bar>round_positive x - x\<bar> \<le> x / 2 ^ 53"
proof -
  let ?u = "(2::rat) powi (exponent_of x - 52)"
  let ?n = "round_half_even (x / ?u)"
  have u: "0 < ?u" by (simp add: zero_less_power_int)
  have "of_int ?n * ?u - x = (of_int ?n - x / ?u) * ?u"
    using u by (simp add: left_diff_distrib)
  then have "\<bar>of_int ?n * ?u - x\<bar> = \<bar>of_int ?n - x / ?u\<bar> * \<bar>?u\<bar>"
    by (simp only: abs_mult)
  also have "\<dots> = \<bar>of_int ?n - x / ?u\<bar> * ?u"
    using u by simp
  also have "\<dots> \<le> 1 / 2 * ?u"
    using u round_half_even_error[of "x / ?u"] by (intro mult_right_mono) auto
  also have "\<dots> = 2 powi exponent_of x / 2 ^ 53"
    by (simp add: power_int_diff)
  also have "\<dots> \<le> x / 2 ^ 53"
    using exponent_of_le[OF assms] by (simp add: divide_right_mono)
  finally show ?thesis by (simp add: round_positive_def Let_def)
qed

lemma round_double_error: "\<bar>round_double x - x\<bar> \<le> \<bar>x\<bar> / 2 ^ 53"
proof -
  consider "x = 0" | "x < 0" | "0 < x" by linarith
  then show ?thesis
  proof cases
    case 1
    then show ?thesis by (simp add: round_double_def)
  next
    case 2
    have "- round_positive (- x) - x = - (round_positive (- x) - (- x))"
      by simp
    then have "\<bar>- round_positive (- x) - x\<bar> = \<bar>round_positive (- x) - (- x)\<bar>"
      by (simp only: abs_minus)
    with 2 round_positive_error[of "- x"] show ?thesis
      by (simp add: round_double_def)
  next
    case 3
    with round_positive_error[of x] show ?thesis
      by (simp add: round_double_def)
  qed
qed

lemma round_positive_le_1:
  assumes "0 < x" "x \<le> 1"
  shows "round_positive x \<le> 1"
proof (cases "x = 1")
  case True
  have "round_positive 1 = 1" by code_simp
  with True show ?thesis by simp
next
  case False
  with assms have "x < 1" by simp
  with exponent_of_le[OF assms(1)] have lt: "(2::rat) powi exponent_of x < 1" by simp
  have e: "exponent_of x + 1 \<le> 0"
  proof (rule ccontr)
    assume "\<not> exponent_of x + 1 \<le> 0"
    then have "0 \<le> exponent_of x" by simp
    then have "(2::rat) powi 0 \<le> 2 powi exponent_of x"
      by (intro power_int_increasing) auto
    with lt show False by simp
  qed
  let ?u = "(2::rat) powi (exponent_of x - 52)"
  have u: "0 < ?u" by (simp add: zero_less_power_int)
  have "(of_int (round_half_even (x / ?u)) :: rat) \<le> of_int (2 ^ 53)"
    using round_positive_significand(2)[OF assms(1)] by (simp only: of_int_le_iff)
  then have "of_int (round_half_even (x / ?u)) * ?u \<le> 2 ^ 53 * ?u"
    using u by (intro mult_right_mono) simp_all
  also have "\<dots> = 2 powi (exponent_of x + 1)"
    by (simp add: power_int_diff power_int_add)
  also have "\<dots> \<le> 2 powi 0"
    using e by (intro power_int_increasing) auto
  finally show ?thesis by (simp add: round_positive_def Let_def)
qed

lemma round_double_unit:
  assumes "0 \<le> x" "x \<le> 1"
  shows "0 \<le> round_double x \<and> round_double x \<le> 1"
  using assms round_positive_le_1[of x] round_positive_pos[of x]
  by (auto simp: round_double_def dest: less_imp_le)

lemma round_double_error_unit:
  assumes "0 \<le> x" "x \<le> 1"
  shows "\<bar>round_double x - x\<bar> \<le> 1 / 2 ^ 53"
proof -
  have "\<bar>round_double x - x\<bar> \<le> \<bar>x\<bar> / 2 ^ 53" by (rule round_double_error)
  also have "\<dots> = x / 2 ^ 53" using assms by simp
  also have "\<dots> \<le> 1 / 2 ^ 53" using assms by (intro divide_right_mono) simp_all
  finally show ?thesis .
qed

lemma round_double_0: "round_double 0 = 0"
  by (simp add: round_double_def)

lemma round_double_1: "round_double 1 = 1"
  by code_simp

subsection \<open>Similarity\<close>

lemma calculateSimilarity_self: "calculateSimilarity s s = 1"
  by (simp add: calculateSimilarity_def levenshteinDistance_self double_sub_def double_div_def
      round_double_0 round_double_1)

lemma calculateSimilarity_spec: "calculateSimilarity a b = similarity_spec a b"
  by (auto simp: calculateSimilarity_def similarity_spec_def levenshteinDistance_spec Let_def)

lemma lev_le_max: "lev s1 s2 i j \<le> max i j"
  by (induction s1 s2 i j rule: lev.induct) auto

text \<open>The computed similarity lies between 0 and 1, within two roundings of the exact
  value.\<close>

lemma similarity_spec_error:
  "\<bar>similarity_spec a b - similarity_exact a b\<bar> \<le> 1 / 2 ^ 52 \<and>
   0 \<le> similarity_spec a b \<and> similarity_spec a b \<le> 1"
proof (cases "a = [] \<and> b = []")
  case True
  then show ?thesis by (simp add: similarity_spec_def similarity_exact_def)
next
  case False
  let ?d = "levenshtein_spec (toLowerCase a) (toLowerCase b)"
  let ?n = "max (length a) (length b)"
  let ?q = "(of_nat ?d :: rat) / of_nat ?n"
  let ?q' = "round_double ?q"
  let ?t = "1 - ?q'"
  from False have n: "0 < ?n" by (auto simp: less_max_iff_disj)
  have "?d \<le> ?n"
    using lev_le_max[of "toLowerCase a" "toLowerCase b" "length a" "length b"]
    by (simp add: levenshtein_spec_def toLowerCase_def)
  then have "(of_nat ?d :: rat) \<le> of_nat ?n" by (simp only: of_nat_le_iff)
  with n have q: "0 \<le> ?q" "?q \<le> 1" by (simp_all add: divide_le_eq)
  from round_double_unit[OF q] have q': "0 \<le> ?q'" "?q' \<le> 1" by simp_all
  then have t: "0 \<le> ?t" "?t \<le> 1" by simp_all
  from round_double_unit[OF t] have s: "0 \<le> round_double ?t" "round_double ?t \<le> 1" by simp_all
  have e1: "\<bar>?q' - ?q\<bar> \<le> 1 / 2 ^ 53" by (rule round_double_error_unit[OF q])
  have e2: "\<bar>round_double ?t - ?t\<bar> \<le> 1 / 2 ^ 53" by (rule round_double_error_unit[OF t])
  have "\<bar>round_double ?t - (1 - ?q)\<bar> \<le> \<bar>round_double ?t - ?t\<bar> + \<bar>?q' - ?q\<bar>"
    by linarith
  also from e1 e2 have "\<dots> \<le> 1 / 2 ^ 53 + 1 / 2 ^ 53" by (rule_tac add_mono)
  also have "\<dots> = (1::rat) / 2 ^ 52" by simp
  finally have e: "\<bar>round_double ?t - (1 - ?q)\<bar> \<le> 1 / 2 ^ 52" .
  have "similarity_spec a b = round_double ?t"
    unfolding similarity_spec_def double_sub_def double_div_def by (simp only: if_not_P[OF False])
  moreover have "similarity_exact a b = 1 - ?q"
    unfolding similarity_exact_def by (simp only: if_not_P[OF False])
  ultimately show ?thesis
    using s e by simp
qed

lemma collect_similar_sound:
  "r \<in> set (collect_similar m t threshold) \<Longrightarrow>
     sr_entry r \<in> set m \<and> number_ge (similarity r) threshold \<and>
     similarity r = calculateSimilarity (task (sr_entry r)) t"
  by (induction m) (auto simp: Let_def split: if_splits)

subsection \<open>Order and number of the results\<close>

lemma sorted_insert_similarity:
  "sorted_wrt (\<lambda>a b. similarity a \<ge> similarity b) ys \<Longrightarrow>
   sorted_wrt (\<lambda>a b. similarity a \<ge> similarity b)
     (insert_js (\<lambda>a b. double_sub (similarity b) (similarity a)) x ys)"
  by (induction ys) (auto simp: set_insert_js double_sub_le_0)

lemma sorted_sort_similarity:
  "sorted_wrt (\<lambda>a b. similarity a \<ge> similarity b)
     (sort_js (\<lambda>a b. double_sub (similarity b) (similarity a)) xs)"
  by (induction xs) (auto intro: sorted_insert_similarity)

lemma set_slice0: "set (slice0 xs e) \<subseteq> set xs"
  by (auto simp: slice0_def Let_def dest: in_set_takeD)

lemma trunc_le: "0 \<le> q \<Longrightarrow> of_int (trunc q) \<le> q"
  by (simp add: trunc_def)

lemma length_slice0:
  assumes "0 \<le> q"
  shows "of_nat (length (slice0 xs (Finite q))) \<le> q"
proof -
  from assms have "0 \<le> trunc q" by (simp add: trunc_def)
  then have "int (length (slice0 xs (Finite q))) \<le> trunc q"
    by (simp add: slice0_def Let_def)
  then have "(of_int (int (length (slice0 xs (Finite q)))) :: rat) \<le> of_int (trunc q)"
    by (simp only: of_int_le_iff)
  with trunc_le[OF assms] show ?thesis by simp
qed

text \<open>A limit of \<open>-1\<close> or less removes results from the end instead.\<close>

lemma length_slice0_negative:
  "q \<le> - 1 \<Longrightarrow> int (length (slice0 xs (Finite q))) = max (int (length xs) + \<lceil>q\<rceil>) 0"
proof -
  assume "q \<le> - 1"
  then have "\<lceil>q\<rceil> \<le> - 1" by (simp add: ceiling_le_iff)
  with \<open>q \<le> - 1\<close> show ?thesis
    by (simp add: slice0_def trunc_def Let_def)
qed

lemma sorted_slice0: "sorted_wrt R xs \<Longrightarrow> sorted_wrt R (slice0 xs e)"
  by (simp add: slice0_def Let_def sorted_wrt_take)

text \<open>
  C5. The claim says that the similarity of a result is one minus the Levenshtein distance
  of the lowercased task texts divided by the longer length, and that the results are cut to
  at most limit. The task text \<open>Axx\<close> is at distance 2 from the query \<open>abc\<close>, and both have
  length 3, which makes one third; the similarity that \<open>findSimilarTasks\<close> returns is the
  double \<open>3002399751580331 / 2^53\<close>, which is larger. With the limit \<open>-1\<close> and two entries
  that reach the threshold, one result is returned, which is more than the limit.
\<close>

theorem findSimilarTasks_exact_counterexample:
  "map sr_entry (findSimilarTasks [entry_axx] ''abc'' (Some one_third) None) = [entry_axx] \<and>
   map similarity (findSimilarTasks [entry_axx] ''abc'' (Some one_third) None) =
     [3002399751580331 / 9007199254740992] \<and>
   levenshtein_spec (toLowerCase (task entry_axx)) (toLowerCase ''abc'') = 2 \<and>
   max (length (task entry_axx)) (length ''abc'') = 3 \<and>
   similarity_exact (task entry_axx) ''abc'' = 1 / 3 \<and>
   map similarity (findSimilarTasks [entry_axx] ''abc'' (Some one_third) None) \<noteq>
     [similarity_exact (task entry_axx) ''abc''] \<and>
   map sr_entry (findSimilarTasks [entry_ab, entry_xy] ''ab'' (Some (Finite 0)) (Some (Finite (- 1)))) =
     [entry_ab] \<and>
   \<not> of_nat (length (findSimilarTasks [entry_ab, entry_xy] ''ab'' (Some (Finite 0))
                       (Some (Finite (- 1))))) \<le> (- 1 :: rat)"
  by code_simp

text \<open>
  C5, as amended. Every result of \<open>findSimilarTasks\<close> is an entry of the working set whose
  similarity is at least the threshold (0.7 when none is given), and that similarity is one
  minus the Levenshtein distance of the lowercased task texts divided by the longer of the
  two texts' lengths, computed in doubles: the quotient is rounded to the nearest double and
  so is the difference, which leaves it within \<open>2^-52\<close> of the exact value. A string has
  similarity exactly one to itself; the results are in descending order of similarity; and
  for a limit that is not negative (10 when none is given) there are at most limit of them.
\<close>

theorem findSimilarTasks_threshold:
  "(\<forall>r \<in> set (findSimilarTasks m t threshold max_results).
      number_ge (similarity r) (or_default DEFAULT_THRESHOLD threshold) \<and>
      similarity r = similarity_spec (task (sr_entry r)) t \<and>
      \<bar>similarity r - similarity_exact (task (sr_entry r)) t\<bar> \<le> 1 / 2 ^ 52 \<and>
      sr_entry r \<in> set m) \<and>
   calculateSimilarity s s = 1 \<and>
   sorted_wrt (\<lambda>a b. similarity a \<ge> similarity b) (findSimilarTasks m t threshold max_results) \<and>
   (\<forall>k. or_default DEFAULT_LIMIT max_results = Finite k \<and> 0 \<le> k \<longrightarrow>
      of_nat (length (findSimilarTasks m t threshold max_results)) \<le> k)"
proof (intro conjI ballI allI impI)
  fix r assume "r \<in> set (findSimilarTasks m t threshold max_results)"
  then have "r \<in> set (collect_similar m t (or_default DEFAULT_THRESHOLD threshold))"
    using set_slice0 by (fastforce simp: findSimilarTasks_def Let_def set_sort_js)
  note sound = collect_similar_sound[OF this]
  from sound show "number_ge (similarity r) (or_default DEFAULT_THRESHOLD threshold)"
    by blast
  from sound show "sr_entry r \<in> set m"
    by blast
  from sound show eq: "similarity r = similarity_spec (task (sr_entry r)) t"
    by (simp add: calculateSimilarity_spec)
  from eq similarity_spec_error[of "task (sr_entry r)" t]
  show "\<bar>similarity r - similarity_exact (task (sr_entry r)) t\<bar> \<le> 1 / 2 ^ 52"
    by simp
next
  show "calculateSimilarity s s = 1" by (rule calculateSimilarity_self)
  show "sorted_wrt (\<lambda>a b. similarity a \<ge> similarity b) (findSimilarTasks m t threshold max_results)"
    by (simp add: findSimilarTasks_def Let_def sorted_slice0 sorted_sort_similarity)
next
  fix k assume "or_default DEFAULT_LIMIT max_results = Finite k \<and> 0 \<le> k"
  then show "of_nat (length (findSimilarTasks m t threshold max_results)) \<le> k"
    by (simp add: findSimilarTasks_def Let_def length_slice0)
qed

theorem findSimilarTasks_threshold_witness:
  "map sr_entry (findSimilarTasks [entry_axx, entry_xy] ''abc'' (Some one_third) (Some (Finite 1))) =
     [entry_axx] \<and>
   map similarity (findSimilarTasks [entry_axx, entry_xy] ''abc'' (Some one_third) (Some (Finite 1))) =
     [3002399751580331 / 9007199254740992] \<and>
   number_ge (3002399751580331 / 9007199254740992) one_third \<and>
   similarity_spec (task entry_axx) ''abc'' = 3002399751580331 / 9007199254740992 \<and>
   \<bar>3002399751580331 / 9007199254740992 - similarity_exact (task entry_axx) ''abc''\<bar> \<le> 1 / 2 ^ 52 \<and>
   (0::rat) \<le> 1 \<and>
   of_nat (length (findSimilarTasks [entry_axx, entry_xy] ''abc'' (Some one_third)
                     (Some (Finite 1)))) \<le> (1::rat)"
proof -
  let ?rs = "findSimilarTasks [entry_axx, entry_xy] ''abc'' (Some one_third) (Some (Finite 1))"
  let ?r = "\<lparr>sr_entry = entry_axx, similarity = 3002399751580331 / 9007199254740992,
             matchedTerms = []\<rparr>"
  have ev: "?rs = [?r]"
    by code_simp
  note inst = findSimilarTasks_threshold[of "[entry_axx, entry_xy]" "''abc''" "Some one_third"
      "Some (Finite 1)"]
  from inst ev have
    "number_ge (similarity ?r) (or_default DEFAULT_THRESHOLD (Some one_third)) \<and>
     similarity ?r = similarity_spec (task (sr_entry ?r)) ''abc'' \<and>
     \<bar>similarity ?r - similarity_exact (task (sr_entry ?r)) ''abc''\<bar> \<le> 1 / 2 ^ 52"
    by simp
  moreover from inst have "of_nat (length ?rs) \<le> (1::rat)"
    by simp
  ultimately show ?thesis
    using ev by simp
qed

section \<open>Properties of the persistence layer\<close>

subsection \<open>Validation on write and on load\<close>

lemma typeof_string: "typeof v = ''string'' \<longleftrightarrow> is_string v"
  by (cases v) (auto simp: is_string_def)

lemma typeof_number: "typeof v = ''number'' \<longleftrightarrow> is_number v"
  by (cases v) (auto simp: is_number_def)

lemma typeof_boolean: "typeof v = ''boolean'' \<longleftrightarrow> is_boolean v"
  by (cases v) (auto simp: is_boolean_def)

lemma typeof_object: "typeof v = ''object'' \<and> v \<noteq> JNull \<longleftrightarrow> is_object v"
  by (cases v) (auto simp: is_object_def)

lemma truthy_object: "truthy v \<and> typeof v = ''object'' \<longleftrightarrow> is_object v"
  by (cases v) (auto simp: is_object_def)

lemma validateEntry_structure: "validateEntry e = structure_ok e"
  using truthy_object[of e] typeof_object[of "field e ''result''"]
    typeof_object[of "field e ''metadata''"]
  by (auto simp: validateEntry_def structure_ok_def typeof_string typeof_number typeof_boolean)

lemma retrieveEntry_valid: "retrieveEntry ls i = Some e \<Longrightarrow> validateEntry e"
  by (auto simp: retrieveEntry_def split: option.splits if_splits sum.splits)

lemma retrieveEntries_valid: "x \<in> set (retrieveEntries ls now) \<Longrightarrow> validateEntry x"
  by (auto simp: retrieveEntries_def split: sum.splits option.splits
           dest: retrieveEntry_valid[OF sym])

lemma saveEntry_try_invalid:
  "\<not> validateEntry e \<Longrightarrow> saveEntry_try e now ls = (Some (Error ''Invalid memory entry structure''), ls)"
  by (simp add: saveEntry_try_def)

lemma saveEntry_invalid:
  "\<not> validateEntry e \<Longrightarrow> fst (saveEntry e now ls) \<noteq> None \<and> snd (saveEntry e now ls) = ls"
  by (auto simp: saveEntry_def saveEntry_try_invalid split: sum.splits)

lemma saveEntry_persists_valid:
  "fst (saveEntry e now ls) = None \<or> snd (saveEntry e now ls) \<noteq> ls \<Longrightarrow> validateEntry e"
  using saveEntry_invalid[of e now ls] by blast

lemma spec_valid_structure: "validateEntry e \<Longrightarrow> spec_valid e \<or> field e ''id'' = JStr []"
  by (auto simp: validateEntry_structure structure_ok_def spec_valid_def is_string_def split: jsval.splits)


text \<open>
  C4. The claim says that every entry \<open>saveEntry\<close> persists has a non-empty string as its
  id. The validator only checks \<open>typeof e.id === 'string'\<close>: the candidate whose id is the
  empty string passes it, is saved without an error and is written to the medium under the
  key \<open>TRINITI_MEMORY_\<close>, although it is not valid in the specification's wording.
\<close>

theorem saveEntry_empty_id_counterexample:
  "validateEntry empty_id_entry \<and>
   field empty_id_entry ''id'' = JStr [] \<and>
   \<not> spec_valid empty_id_entry \<and>
   fst (saveEntry empty_id_entry 5 empty_storage) = None \<and>
   map fst (items (snd (saveEntry empty_id_entry 5 empty_storage))) =
     [''TRINITI_MEMORY_'', ''TRINITI_MEMORY_INDEX'']"
  by code_simp

text \<open>
  C4, as amended. The structural validator accepts exactly the candidates that are objects
  with a string \<open>id\<close> (possibly empty), a numeric \<open>timestamp\<close>, a string \<open>task\<close>, a non-null
  object \<open>result\<close> and a non-null object \<open>metadata\<close> with a boolean \<open>success\<close> and a numeric
  \<open>duration\<close>. Every entry that \<open>saveEntry\<close> saves without an error, or for which it changes
  the medium at all, satisfies it, and so does every entry returned by \<open>retrieveEntries\<close>; a
  candidate that fails it is rejected by \<open>saveEntry\<close> with an error, leaves the medium
  unchanged and is in no result of \<open>retrieveEntries\<close>.
\<close>

theorem saveEntry_validates:
  "validateEntry e = structure_ok e \<and>
   (fst (saveEntry e now ls) = None \<or> snd (saveEntry e now ls) \<noteq> ls \<longrightarrow> structure_ok e) \<and>
   (\<forall>x \<in> set (retrieveEntries ls now). structure_ok x) \<and>
   (\<not> structure_ok e \<longrightarrow>
      fst (saveEntry e now ls) \<noteq> None \<and> snd (saveEntry e now ls) = ls \<and>
      e \<notin> set (retrieveEntries ls' now'))"
proof (intro conjI impI ballI)
  show "validateEntry e = structure_ok e" by (rule validateEntry_structure)
next
  assume "fst (saveEntry e now ls) = None \<or> snd (saveEntry e now ls) \<noteq> ls"
  then show "structure_ok e"
    using saveEntry_persists_valid[of e now ls] by (simp add: validateEntry_structure)
next
  fix x assume "x \<in> set (retrieveEntries ls now)"
  then show "structure_ok x"
    using retrieveEntries_valid[of x ls now] by (simp add: validateEntry_structure)
next
  assume bad: "\<not> structure_ok e"
  then have inv: "\<not> validateEntry e" by (simp add: validateEntry_structure)
  from saveEntry_invalid[OF inv, of now ls]
  show "fst (saveEntry e now ls) \<noteq> None" and "snd (saveEntry e now ls) = ls"
    by simp_all
  from inv show "e \<notin> set (retrieveEntries ls' now')"
    using retrieveEntries_valid[of e ls' now'] by blast
qed

theorem saveEntry_validates_witness:
  "fst (saveEntry valid_entry 5 empty_storage) = None \<and>
   structure_ok valid_entry \<and>
   retrieveEntries legacy_storage 6 = [valid_entry] \<and>
   \<not> structure_ok no_duration_entry \<and>
   fst (saveEntry no_duration_entry 5 empty_storage) \<noteq> None \<and>
   snd (saveEntry no_duration_entry 5 empty_storage) = empty_storage \<and>
   no_duration_entry \<notin> set (retrieveEntries legacy_storage 6)"
proof -
  have ok: "fst (saveEntry valid_entry 5 empty_storage) = None"
    by code_simp
  have load: "retrieveEntries legacy_storage 6 = [valid_entry]"
    by code_simp
  have bad: "\<not> structure_ok no_duration_entry"
    by code_simp
  note inst1 = saveEntry_validates[of valid_entry 5 empty_storage empty_storage 6]
  note inst2 = saveEntry_validates[of no_duration_entry 5 empty_storage legacy_storage 6]
  from inst1 ok have "structure_ok valid_entry" by blast
  moreover from inst2 bad
  have "fst (saveEntry no_duration_entry 5 empty_storage) \<noteq> None \<and>
        snd (saveEntry no_duration_entry 5 empty_storage) = empty_storage \<and>
        no_duration_entry \<notin> set (retrieveEntries legacy_storage 6)"
    by blast
  ultimately show ?thesis using ok load bad by blast
qed

subsection \<open>What \<open>saveEntry\<close> writes and what \<open>retrieveEntry\<close> reads\<close>

lemma hex_val_hex_digit: "k < 16 \<Longrightarrow> hex_val (hex_digit k) = Some k"
proof -
  assume "k < 16"
  then have "k \<in> set [0..<16]" by simp
  moreover have "list_all (\<lambda>k. hex_val (hex_digit k) = Some k) [0..<16]"
    by code_simp
  ultimately show ?thesis
    unfolding list_all_iff by blast
qed

lemma unicode_escape_low:
  assumes "(of_char c :: nat) < 32"
  shows "unicode_escape (CHR ''0'') (CHR ''0'') (hex_digit (of_char c div 16)) (hex_digit (of_char c mod 16)) = Some c"
proof -
  let ?n = "of_char c :: nat"
  have a: "hex_val (hex_digit (?n div 16)) = Some (?n div 16)"
    using assms by (intro hex_val_hex_digit) simp
  have b: "hex_val (hex_digit (?n mod 16)) = Some (?n mod 16)"
    by (intro hex_val_hex_digit) simp
  have z: "hex_val (CHR ''0'') = Some 0" by (simp add: hex_val_def)
  have "char_of (16 * (?n div 16) + ?n mod 16) = c" by simp
  with a b z show ?thesis by (simp add: unicode_escape_def)
qed

lemma parse_chars_quote_char:
  "parse_chars (quote_char c @ rest) =
     (case parse_chars rest of None \<Rightarrow> None | Some (s, r) \<Rightarrow> Some (c # s, r))"
proof -
  let ?n = "of_char c :: nat"
  have c: "char_of ?n = c" by simp
  consider (q) "c = CHR 0x22" | (b) "c = CHR 0x5C"
    | (e8) "?n = 8" | (e12) "?n = 12" | (e10) "?n = 10" | (e13) "?n = 13" | (e9) "?n = 9"
    | (low) "?n < 32" "?n \<notin> {8, 9, 10, 12, 13}"
    | (plain) "c \<noteq> CHR 0x22" "c \<noteq> CHR 0x5C" "\<not> ?n < 32"
    by fastforce
  then show ?thesis
  proof cases
    case q show ?thesis unfolding q by (simp add: quote_char_def unescape_def)
  next
    case b show ?thesis unfolding b by (simp add: quote_char_def unescape_def)
  next
    case e8
    then have ne: "c \<noteq> CHR 0x22" "c \<noteq> CHR 0x5C" by auto
    from e8 ne have qc: "quote_char c = [CHR 0x5C, CHR ''b'']"
      by (simp add: quote_char_def)
    from c e8 have ch: "char_of (8::nat) = c" by simp
    show ?thesis by (simp add: qc unescape_def ch)
  next
    case e12
    then have ne: "c \<noteq> CHR 0x22" "c \<noteq> CHR 0x5C" by auto
    from e12 ne have qc: "quote_char c = [CHR 0x5C, CHR ''f'']"
      by (simp add: quote_char_def)
    from c e12 have ch: "char_of (12::nat) = c" by simp
    show ?thesis by (simp add: qc unescape_def ch)
  next
    case e10
    then have ne: "c \<noteq> CHR 0x22" "c \<noteq> CHR 0x5C" by auto
    from e10 ne have qc: "quote_char c = [CHR 0x5C, CHR ''n'']"
      by (simp add: quote_char_def)
    from c e10 have ch: "char_of (10::nat) = c" by simp
    show ?thesis by (simp add: qc unescape_def ch)
  next
    case e13
    then have ne: "c \<noteq> CHR 0x22" "c \<noteq> CHR 0x5C" by auto
    from e13 ne have qc: "quote_char c = [CHR 0x5C, CHR ''r'']"
      by (simp add: quote_char_def)
    from c e13 have ch: "char_of (13::nat) = c" by simp
    show ?thesis by (simp add: qc unescape_def ch)
  next
    case e9
    then have ne: "c \<noteq> CHR 0x22" "c \<noteq> CHR 0x5C" by auto
    from e9 ne have qc: "quote_char c = [CHR 0x5C, CHR ''t'']"
      by (simp add: quote_char_def)
    from c e9 have ch: "char_of (9::nat) = c" by simp
    show ?thesis by (simp add: qc unescape_def ch)
  next
    case low
    then have ne: "c \<noteq> CHR 0x22" "c \<noteq> CHR 0x5C" by auto
    from low ne show ?thesis
      by (simp add: quote_char_def Let_def unicode_escape_low)
  next
    case plain
    then show ?thesis by (simp add: quote_char_def Let_def)
  qed
qed

lemma parse_chars_quoted:
  "parse_chars (concat (map quote_char s) @ CHR 0x22 # r) = Some (s, r)"
  by (induction s) (simp_all add: parse_chars_quote_char)

lemma JSON_parse_quote: "JSON_parse (quote s) = Inr (JStr s)"
proof -
  have "quote s = CHR 0x22 # (concat (map quote_char s) @ CHR 0x22 # [])"
    by (simp add: quote_def)
  moreover obtain n where "2 * length (quote s) + 2 = Suc n"
    by (metis add_2_eq_Suc')
  ultimately show ?thesis
    using parse_chars_quoted[of s "[]"]
    by (simp add: JSON_parse_def skip_ws_def is_json_ws_def)
qed

lemma map_of_put_item:
  "map_of (put_item its k v) k' = (if k' = k then Some v else map_of its k')"
  by (induction its) auto

lemma getItem_setItem:
  "setItem ls k v = Inr ls' \<Longrightarrow> getItem ls' k' = (if k' = k then Some v else getItem ls k')"
  by (auto simp: setItem_def getItem_def Let_def map_of_put_item split: if_splits)

lemma updateMemoryIndex_writes_index:
  "updateMemoryIndex ls i now = Inr ls' \<Longrightarrow> \<exists>t. setItem ls METADATA_KEY t = Inr ls'"
  by (auto simp: updateMemoryIndex_def Let_def split: sum.splits jsval.splits if_splits option.splits)

lemma updateMemoryIndex_needs_object:
  "getMemoryIndex ls now = JStr t \<Longrightarrow> \<exists>e. updateMemoryIndex ls i now = Inl e"
  by (simp add: updateMemoryIndex_def)

lemma quote_nonempty: "quote t \<noteq> []"
  by (simp add: quote_def)

text \<open>
  \<open>saveEntry\<close> stores \<open>JSON.stringify(encryptEntry(entry))\<close>, the JSON text of a string, and
  \<open>retrieveEntry\<close> parses the stored text once, which gives back that string and not the
  entry: whenever \<open>saveEntry\<close> succeeds, \<open>retrieveEntry\<close> of the id it saved returns \<open>null\<close>.
\<close>

lemma saveEntry_double_encoding:
  assumes ok: "fst (saveEntry e now ls) = None"
  shows "retrieveEntry (snd (saveEntry e now ls)) (field e ''id'') = None"
proof -
  let ?key = "STORAGE_PREFIX @ js_to_string (field e ''id'')"
  from ok have "fst (saveEntry_try e now ls) = None"
    by (auto simp: saveEntry_def split: prod.splits option.splits sum.splits)
  then obtain t ls1 ls2 where enc: "encryptEntry e = Inr t"
    and set1: "setItem ls ?key (quote t) = Inr ls1"
    and upd: "updateMemoryIndex ls1 (js_to_string (field e ''id'')) now = Inr ls2"
    and res: "saveEntry_try e now ls = (None, ls2)"
    by (auto simp: saveEntry_try_def JSON_stringify_def Let_def
             split: if_splits sum.splits option.splits)
  have stored1: "getItem ls1 ?key = Some (quote t)"
    using getItem_setItem[OF set1] by simp
  have key: "?key \<noteq> METADATA_KEY"
  proof
    assume eq: "?key = METADATA_KEY"
    with stored1 have "getMemoryIndex ls1 now = JStr t"
      by (simp add: getMemoryIndex_def quote_nonempty JSON_parse_quote)
    from updateMemoryIndex_needs_object[OF this, of "js_to_string (field e ''id'')"] upd
    show False by auto
  qed
  from updateMemoryIndex_writes_index[OF upd] obtain u where "setItem ls1 METADATA_KEY u = Inr ls2"
    by blast
  from getItem_setItem[OF this] key stored1 have "getItem ls2 ?key = Some (quote t)"
    by simp
  moreover have "\<not> validateEntry (JStr t)"
    by (simp add: validateEntry_def)
  moreover from res have "snd (saveEntry e now ls) = ls2"
    by (simp add: saveEntry_def)
  ultimately show ?thesis
    by (simp add: retrieveEntry_def decryptEntry_def quote_nonempty JSON_parse_quote)
qed


text \<open>
  C7. The claim says that \<open>retrieveEntry(e.id)\<close> after \<open>saveEntry(e)\<close> returns a value deep-equal
  to \<open>e\<close>. For the valid entry \<open>valid_entry\<close>, saved into an empty medium, \<open>saveEntry\<close> succeeds,
  \<open>retrieveEntry\<close> returns \<open>null\<close> and \<open>retrieveEntries\<close> returns no entry.
\<close>

theorem saveEntry_then_retrieveEntry_null:
  "validateEntry valid_entry \<and>
   fst (saveEntry valid_entry 5 empty_storage) = None \<and>
   retrieveEntry (snd (saveEntry valid_entry 5 empty_storage)) (JStr ''t1'') = None \<and>
   retrieveEntries (snd (saveEntry valid_entry 5 empty_storage)) 6 = []"
  by code_simp

text \<open>The entry of this input passes the validator, and what is read back is \<open>null\<close>.\<close>

theorem saveEntry_then_retrieveEntry_null_witness:
  "validateEntry valid_entry \<and>
   retrieveEntry (snd (saveEntry valid_entry 5 empty_storage)) (JStr ''t1'') = None"
  using saveEntry_then_retrieveEntry_null by simp

section \<open>Properties of the persistent facade\<close>

lemma build_entry_duration:
  "build_entry tsk res md env = Inr entry \<Longrightarrow>
     field (field entry ''metadata'') ''duration'' = JNum (perf_end env - perf_start env)"
  by (auto simp: build_entry_def Let_def field_def split: sum.splits)

lemma recordTask_success:
  assumes "recordTask sys ls tsk res md env = (Inr i, sys', ls')"
  shows "\<exists>entry. build_entry tsk res md env = Inr entry \<and>
           sys_entries sys' =
             (if isInitialized sys then sys_entries sys else retrieveEntries ls (date_now env)) @ [entry] \<and>
           i = new_id env"
  using assms
  by (auto simp: recordTask_def initialize_def Let_def
           split: if_splits prod.splits option.splits sum.splits bool.splits)

lemma recordTask_initialized:
  assumes "isInitialized sys" "build_entry tsk res md env = Inr entry"
    "facade_validateEntry entry = Inr True" "saveEntry entry (date_now env) ls = (None, ls1)"
    "refresh_error (sys_entries sys @ [entry]) = None"
  shows "recordTask sys ls tsk res md env =
           (Inr (new_id env), sys\<lparr>sys_entries := sys_entries sys @ [entry]\<rparr>, ls1)"
  using assms by (simp add: recordTask_def Let_def)

lemma refresh_full: "refresh_error (full_entries @ [e]) = refresh_error [e]"
  by (simp add: refresh_error_def full_entries_def list_all_iff numbered_entry_def field_def isArray_def)

text \<open>
  Whatever the overrides hold, the duration of the entry that \<open>recordTask\<close> records is the
  difference of the two clock readings, and a successful \<open>recordTask\<close> appends the new entry
  to the working set without removing any entry.
\<close>

lemma recordTask_duration_measured:
  assumes "recordTask sys ls tsk res md env = (Inr i, sys', ls')"
  shows "field (field (last (sys_entries sys')) ''metadata'') ''duration'' =
           JNum (perf_end env - perf_start env)"
  using recordTask_success[OF assms] build_entry_duration by fastforce

lemma recordTask_never_evicts:
  assumes "recordTask sys ls tsk res md env = (Inr i, sys', ls')" and "isInitialized sys"
  shows "length (sys_entries sys') = length (sys_entries sys) + 1 \<and>
         set (sys_entries sys) \<subseteq> set (sys_entries sys')"
  using recordTask_success[OF assms(1)] assms(2) by auto

text \<open>
  C8. The claim says that a duration supplied in the overrides is the duration of the stored
  entry. \<open>recordTask('Create file test.txt', {}, {success: true, duration: 120})\<close>, with the
  clock readings 50 and 51, records an entry whose \<open>metadata.duration\<close> is 1.
\<close>

theorem recordTask_ignores_supplied_duration:
  "field overrides_120 ''duration'' = JNum 120 \<and>
   fst (recordTask new_system empty_storage (JStr ''Create file test.txt'') (JObj [])
          overrides_120 env_1) = Inr ''task_1000_k3j'' \<and>
   field (field (last (sys_entries (fst (snd (recordTask new_system empty_storage
            (JStr ''Create file test.txt'') (JObj []) overrides_120 env_1))))) ''metadata'')
      ''duration'' = JNum 1"
  by code_simp

text \<open>
  C1. The claim says that recording one more entry than the capacity leaves exactly as many
  entries as the capacity, the oldest one being evicted. A facade whose working set holds
  \<open>storageLimit = 10000\<close> entries records one more with \<open>recordTask\<close>: the call succeeds, the
  working set then holds 10001 entries, and the entry with the smallest timestamp is still
  among them.
\<close>

theorem recordTask_at_capacity_keeps_all:
  "storageLimit full_system = 10000 \<and>
   length (sys_entries full_system) = 10000 \<and>
   fst (recordTask full_system empty_storage (JStr ''x'') (JObj []) JUndefined env_1) =
     Inr ''task_1000_k3j'' \<and>
   length (sys_entries (fst (snd (recordTask full_system empty_storage (JStr ''x'') (JObj [])
             JUndefined env_1)))) = 10001 \<and>
   numbered_entry 0 \<in> set (sys_entries (fst (snd (recordTask full_system empty_storage
             (JStr ''x'') (JObj []) JUndefined env_1))))"
proof -
  have b: "build_entry (JStr ''x'') (JObj []) JUndefined env_1 = Inr recorded_x"
    by code_simp
  have v: "facade_validateEntry recorded_x = Inr True"
    by code_simp
  have "fst (saveEntry recorded_x 1000 empty_storage) = None"
    by code_simp
  then have sv: "saveEntry recorded_x (date_now env_1) empty_storage =
                   (None, snd (saveEntry recorded_x 1000 empty_storage))"
    by (simp add: env_1_def prod_eq_iff)
  have "refresh_error [recorded_x] = None"
    by code_simp
  then have r: "refresh_error (sys_entries full_system @ [recorded_x]) = None"
    by (simp add: full_system_def refresh_full)
  have i: "isInitialized full_system"
    by (simp add: full_system_def)
  have n: "length full_entries = 10000"
    by (simp add: full_entries_def)
  have "0 \<in> set [0..<10000::nat]"
    by simp
  then have z: "numbered_entry 0 \<in> set full_entries"
    unfolding full_entries_def set_map by (rule imageI)
  from recordTask_initialized[OF i b v sv r] n z show ?thesis
    by (simp add: full_system_def env_1_def)
qed

section \<open>Properties of the in-memory facade\<close>

text \<open>
  The in-memory facade does what the persistent one leaves out. \<open>prune\<close> picks an entry no
  other entry is older than; \<open>record\<close>, at capacity, removes it from the \<open>Map\<close> and from the
  medium before it admits the new entry, so the size stays at the bound; and \<open>record\<close> keeps a
  supplied non-zero duration, measuring only when none is supplied.
\<close>

lemma js_less_trans: "js_less a b \<Longrightarrow> js_less b c \<Longrightarrow> js_less a c"
  by (auto simp: js_less_def split: jsval.splits)

lemma js_less_irrefl: "\<not> js_less a a"
  by (auto simp: js_less_def split: jsval.splits)

lemma older_cases: "older a b = a \<or> older a b = b"
  by (simp add: older_def)

lemma foldl_older_mem: "foldl older a xs \<in> set (a # xs)"
proof (induction xs arbitrary: a)
  case Nil then show ?case by simp
next
  case (Cons x xs)
  from older_cases[of a x] Cons.IH[of "older a x"] show ?case by auto
qed

lemma foldl_older_le_start:
  "foldl older a xs = a \<or> js_less (entry_timestamp (foldl older a xs)) (entry_timestamp a)"
proof (induction xs arbitrary: a)
  case Nil then show ?case by simp
next
  case (Cons x xs)
  show ?case
  proof (cases "js_less (entry_timestamp x) (entry_timestamp a)")
    case True
    then have o: "older a x = x" by (simp add: older_def entry_timestamp_def)
    from Cons.IH[of x] True show ?thesis
      unfolding foldl_Cons o by (auto intro: js_less_trans)
  next
    case False
    then have o: "older a x = a" by (simp add: older_def entry_timestamp_def)
    from Cons.IH[of a] show ?thesis unfolding foldl_Cons o .
  qed
qed

lemma foldl_older_minimal:
  "p \<in> set (a # xs) \<Longrightarrow> \<not> js_less (entry_timestamp p) (entry_timestamp (foldl older a xs))"
proof (induction xs arbitrary: a)
  case Nil then show ?case by (simp add: js_less_irrefl)
next
  case (Cons x xs)
  show ?case
  proof (cases "js_less (entry_timestamp x) (entry_timestamp a)")
    case True
    then have o: "older a x = x" by (simp add: older_def entry_timestamp_def)
    show ?thesis
    proof (cases "p = a")
      case pa: True
      from foldl_older_le_start[of x xs] have "foldl older x xs = x \<or> js_less (entry_timestamp (foldl older x xs)) (entry_timestamp x)" .
      then have "js_less (entry_timestamp (foldl older x xs)) (entry_timestamp a)"
        using True by (auto intro: js_less_trans)
      then have "\<not> js_less (entry_timestamp a) (entry_timestamp (foldl older x xs))"
        using js_less_trans js_less_irrefl by blast
      with pa show ?thesis unfolding foldl_Cons o by simp
    next
      case False
      with Cons.prems have "p \<in> set (x # xs)" by auto
      from Cons.IH[OF this] show ?thesis unfolding foldl_Cons o .
    qed
  next
    case False
    then have o: "older a x = a" by (simp add: older_def entry_timestamp_def)
    show ?thesis
    proof (cases "p = x")
      case px: True
      from foldl_older_le_start[of a xs] False px show ?thesis
        unfolding foldl_Cons o by (auto dest: js_less_trans)
    next
      case False
      with Cons.prems have "p \<in> set (a # xs)" by auto
      from Cons.IH[OF this] show ?thesis unfolding foldl_Cons o .
    qed
  qed
qed


lemma length_filter_distinct_key:
  "distinct (map fst xs) \<Longrightarrow> x \<in> set xs \<Longrightarrow>
     length (filter (\<lambda>p. fst p \<noteq> fst x) xs) = length xs - 1"
proof (induction xs)
  case Nil then show ?case by simp
next
  case (Cons y ys)
  show ?case
  proof (cases "fst y = fst x")
    case True
    with Cons.prems have "\<forall>p \<in> set ys. fst p \<noteq> fst x" by (auto simp: image_iff)
    then have "filter (\<lambda>p. fst p \<noteq> fst x) ys = ys" by (simp add: filter_id_conv)
    with True show ?thesis by simp
  next
    case False
    with Cons.prems have "x \<in> set ys" "distinct (map fst ys)" by auto
    with Cons.IH False show ?thesis by (cases ys) auto
  qed
qed

lemma map_set_fresh: "k \<notin> fst ` set xs \<Longrightarrow> map_set xs k v = xs @ [(k, v)]"
  by (induction xs) auto

lemma prune_below_capacity:
  "length (storage sys) < MAX_ENTRIES sys \<Longrightarrow> prune sys ls = Inr (sys, ls)"
  by (simp add: prune_def)

lemma prune_at_capacity:
  assumes "length (storage sys) \<ge> MAX_ENTRIES sys" and "storage sys \<noteq> []"
    and "distinct (map fst (storage sys))"
  shows "\<exists>old \<in> set (storage sys).
           prune sys ls = Inr (sys\<lparr>storage := filter (\<lambda>p. fst p \<noteq> fst old) (storage sys)\<rparr>,
                               removeFromDisk ls (fst old)) \<and>
           (\<forall>p \<in> set (storage sys). \<not> js_less (entry_timestamp p) (entry_timestamp old)) \<and>
           length (filter (\<lambda>p. fst p \<noteq> fst old) (storage sys)) = length (storage sys) - 1"
proof -
  from assms(2) obtain first rest where st: "storage sys = first # rest"
    by (cases "storage sys") auto
  let ?old = "foldl older first rest"
  have mem: "?old \<in> set (storage sys)"
    using foldl_older_mem[of first rest] st by simp
  have "prune sys ls = Inr (sys\<lparr>storage := filter (\<lambda>p. fst p \<noteq> fst ?old) (storage sys)\<rparr>,
                           removeFromDisk ls (fst ?old))"
    using assms(1) st by (simp add: prune_def Let_def)
  moreover have "\<forall>p \<in> set (storage sys). \<not> js_less (entry_timestamp p) (entry_timestamp ?old)"
    using foldl_older_minimal[of _ first rest] st by simp
  moreover have "length (filter (\<lambda>p. fst p \<noteq> fst ?old) (storage sys)) = length (storage sys) - 1"
    using length_filter_distinct_key[OF assms(3) mem] .
  ultimately show ?thesis using mem by blast
qed

lemma map_of_filter_key:
  "map_of (filter (\<lambda>p. fst p \<noteq> k) xs) k' = (if k' = k then None else map_of xs k')"
  by (induction xs) auto

lemma getItem_removeItem: "getItem (removeItem ls k) k' = (if k' = k then None else getItem ls k')"
  by (simp add: getItem_def removeItem_def map_of_filter_key)

lemma getItem_persistToDisk:
  "k \<noteq> STORAGE_KEY_PREFIX @ i \<Longrightarrow> getItem (persistToDisk ls i entry) k = getItem ls k"
  by (auto simp: persistToDisk_def getItem_setItem split: sum.splits option.splits)

lemma record_sync_at_capacity:
  assumes cap: "length (storage sys) = MAX_ENTRIES sys" and pos: "MAX_ENTRIES sys > 0"
    and dist: "distinct (map fst (storage sys))"
    and fresh: "new_id env \<notin> fst ` set (storage sys)"
  shows "\<exists>old \<in> set (storage sys).
           fst (record_sync sys ls tsk res options env) = Inr (new_id env) \<and>
           storage (fst (snd (record_sync sys ls tsk res options env))) =
             filter (\<lambda>p. fst p \<noteq> fst old) (storage sys) @
               [(new_id env, build_entry_sync tsk res options env)] \<and>
           length (storage (fst (snd (record_sync sys ls tsk res options env)))) = MAX_ENTRIES sys \<and>
           (\<forall>p \<in> set (storage sys). \<not> js_less (entry_timestamp p) (entry_timestamp old)) \<and>
           getItem (snd (snd (record_sync sys ls tsk res options env)))
             (STORAGE_KEY_PREFIX @ fst old) = None"
proof -
  from cap pos have ne: "storage sys \<noteq> []" by auto
  from cap have ge: "length (storage sys) \<ge> MAX_ENTRIES sys" by simp
  from prune_at_capacity[OF ge ne dist, of ls] obtain old where old: "old \<in> set (storage sys)"
    and pr: "prune sys ls = Inr (sys\<lparr>storage := filter (\<lambda>p. fst p \<noteq> fst old) (storage sys)\<rparr>,
                                 removeFromDisk ls (fst old))"
    and mn: "\<forall>p \<in> set (storage sys). \<not> js_less (entry_timestamp p) (entry_timestamp old)"
    and ln: "length (filter (\<lambda>p. fst p \<noteq> fst old) (storage sys)) = length (storage sys) - 1"
    by blast
  from fresh have fr: "new_id env \<notin> fst ` set (filter (\<lambda>p. fst p \<noteq> fst old) (storage sys))"
    by auto
  from fresh old have ne_key: "STORAGE_KEY_PREFIX @ fst old \<noteq> STORAGE_KEY_PREFIX @ new_id env"
    by (auto simp: image_iff)
  have gone: "getItem (persistToDisk (removeFromDisk ls (fst old)) (new_id env)
                 (build_entry_sync tsk res options env)) (STORAGE_KEY_PREFIX @ fst old) = None"
    using getItem_persistToDisk[OF ne_key] by (simp add: removeFromDisk_def getItem_removeItem)
  from pr fr ln cap pos mn gone old show ?thesis
    by (intro bexI[of _ old]) (simp_all add: record_sync_def Let_def map_set_fresh)
qed

lemma record_sync_below_capacity:
  assumes "length (storage sys) < MAX_ENTRIES sys" and "new_id env \<notin> fst ` set (storage sys)"
  shows "record_sync sys ls tsk res options env =
           (Inr (new_id env),
            sys\<lparr>storage := storage sys @ [(new_id env, build_entry_sync tsk res options env)]\<rparr>,
            persistToDisk ls (new_id env) (build_entry_sync tsk res options env))"
  using assms by (simp add: record_sync_def Let_def prune_below_capacity map_set_fresh)

lemma record_sync_keeps_supplied_duration:
  assumes "opt_prop options ''duration'' = JNum d" and "d \<noteq> 0"
  shows "field (field (build_entry_sync tsk res options env) ''metadata'') ''duration'' = JNum d"
  using assms by (simp add: build_entry_sync_def field_def safeguardNumber_def)

lemma record_sync_measures_without_duration:
  assumes "opt_prop options ''duration'' = JUndefined"
  shows "field (field (build_entry_sync tsk res options env) ''metadata'') ''duration'' =
           JNum (perf_end env - perf_start env)"
  using assms by (simp add: build_entry_sync_def field_def)

text \<open>
  The tag step of \<open>searchTasks\<close> keeps an entry as soon as it has one of the required tags:
  for the tags \<open>a\<close> and \<open>b\<close> it keeps the entry whose only tag is \<open>a\<close>.
\<close>

lemma tags_include_error: "tags_include entry tag = Inl e \<Longrightarrow> tags_include entry tag' = Inl e"
  by (auto simp: tags_include_def split: jsval.splits)

lemma some_tag_any:
  "some_tag entry required = Inr True \<longleftrightarrow>
     (\<exists>tag \<in> set required. tags_include entry tag = Inr True)"
proof (induction required)
  case Nil
  then show ?case by simp
next
  case (Cons t rest)
  show ?case
  proof (cases "tags_include entry t")
    case (Inl e)
    then have "\<And>tag. tags_include entry tag = Inl e" by (rule tags_include_error)
    with Inl show ?thesis by simp
  next
    case (Inr b)
    with Cons.IH show ?thesis by (cases b) auto
  qed
qed

lemma searchTasks_tags_or:
  "searchTasks_tag_step [''a'', ''b''] [tagged_a_entry] = Inr [tagged_a_entry]"
  by (simp add: searchTasks_tag_step_def tags_include_def tagged_a_entry_def field_def)

end
